theory Spec2Isabelle
  imports Complex_Main "HOL-Library.Word"
begin

unbundle bit_operations_syntax

section \<open>Python values, exceptions and the outside world\<close>

text \<open>
  The repository is a webhook service: every function that matters talks to one of three
  external collaborators, the PyGithub repository object, the Supabase client and the
  LangChain chat model. None of them is part of the repository, so none of them is given a
  semantics here. Each request the code sends is a \<open>call\<close>; the collaborators are an
  oracle that answers a call knowing every call made before it; a run of the code
  is a function from the calls made so far to a result (or the exception raised) and
  the extended list of calls. Logging has no effect on results and is left out.

  A Python \<open>str\<close> is the list of the bytes of its UTF-8 encoding, \<open>bytes\<close> is a list
  of 8-bit words, \<open>int\<close> is \<open>int\<close>, \<open>Dict[str, Any]\<close> is an association list of
  Python values.
\<close>

datatype pyval =
    PyNone
  | PyBool bool
  | PyInt int
  | PyFloat real
  | PyStr string
  | PyList "pyval list"
  | PyDict "(string \<times> pyval) list"
  | PyJson pyval

text \<open>
  \<open>PyJson v\<close> stands for the string \<open>json.dumps(v)\<close>: the serialised text is never
  inspected by the code, so it is kept as the value it was made from.
\<close>

type_synonym pydict = "(string \<times> pyval) list"

type_synonym byte = "8 word"

datatype error =
    GithubException int string
  | APIError string
  | PyException string
  | AttributeError string
  | KeyError string
  | IndexError string
  | TypeError string
  | ValidationError string
  | OutputParserException string
  | JSONDecodeError string
  | RetryError error
  | HTTPException int string

datatype prompt =
    AnalysisPrompt string "string option" "string list option"
  | FollowUpPrompt "string list"
  | GenerationPrompt string "string list" pydict

datatype call =
    GetRepo string
  | GetIssue int
  | CreateComment int string
  | AddToLabels int "string list"
  | RemoveFromLabels int string
  | CreatePull string string string string
  | GetPull int
  | EditPull int string
  | GetGitRef string
  | CreateGitRef string string
  | GetContents string string
  | UpdateFile string string string string string
  | CreateFile string string string string
  | DbInsert string pydict
  | DbUpdate string pydict string pyval
  | DbSelect string pydict
  | LlmInvoke string prompt

datatype reply =
    Failed error
  | Done
  | Pull int "string option"
  | GitRef string
  | ContentFile string
  | Listing
  | Rows "pydict list"
  | Content string

text \<open>
  The calls are those of the SDKs as the wrappers in \<open>src/utils\<close> issue them:
  \<open>GetRepo name\<close> is \<open>Github(token).get_repo(name)\<close>,
  \<open>GetIssue n\<close> is \<open>repo.get_issue(n)\<close>, \<open>CreateComment n body\<close>,
  \<open>AddToLabels n labels\<close> and \<open>RemoveFromLabels n label\<close> are
  \<open>issue.create_comment(body)\<close>, \<open>issue.add_to_labels(*labels)\<close> and
  \<open>issue.remove_from_labels(label)\<close> on the issue \<open>n\<close>,
  \<open>CreatePull title body head base\<close> is \<open>repo.create_pull\<close>,
  \<open>GetPull n\<close> is \<open>repo.get_pull(n)\<close>, \<open>EditPull n b\<close> is \<open>pr.edit(body=b)\<close>,
  \<open>GetGitRef ref\<close> and \<open>CreateGitRef ref sha\<close> are \<open>repo.get_git_ref\<close> and
  \<open>repo.create_git_ref\<close>,
  \<open>GetContents path ref\<close> is \<open>repo.get_contents(path, ref=ref)\<close>,
  \<open>UpdateFile path message content sha branch\<close> and
  \<open>CreateFile path message content branch\<close> are \<open>repo.update_file\<close> and
  \<open>repo.create_file\<close>, \<open>DbInsert table data\<close> is
  \<open>client.table(table).insert(data).execute()\<close>,
  \<open>DbUpdate table data column value\<close> is \<open>.update(data).eq(column, value).execute()\<close>,
  \<open>DbSelect table filters\<close> is \<open>.select("*")\<close> with one \<open>.eq\<close> for each filter, and
  \<open>LlmInvoke agent prompt\<close> is \<open>llm.invoke\<close> on the system message of the agent
  class \<open>agent\<close> and a human message. The human message is a fixed template around a
  few arguments; a \<open>prompt\<close> keeps the template's kind and its arguments, not its text.

  A reply is the object returned: a pull request with its number and body, a git ref with
  the SHA it points to, a content file with its SHA (\<open>Listing\<close> when the path is a
  directory), the rows of a database response, the content of a chat message, \<open>Done\<close>
  for an object the code does not read. \<open>Failed e\<close> is the call raising \<open>e\<close>.
\<close>

section \<open>The models (\<open>src/models\<close>)\<close>

record issue_analysis =
  needs_clarification :: bool
  questions :: "string list"
  refined_description :: "string option"
  is_complete :: bool
  estimated_complexity :: string
  suggested_labels :: "string list"
  acceptance_criteria :: "string list"
  technical_considerations :: "string list"
  dependencies :: "string list"
  estimated_effort_hours :: "real option"

record conversation_turn =
  turn_number :: int
  agent_questions :: "string list"
  user_responses :: "string list option"

record conversation_state =
  issue_id :: int
  issue_number :: int
  repo_full_name :: string
  status :: string
  turns :: "conversation_turn list"
  current_analysis :: "issue_analysis option"

record file_change =
  file_path :: string
  content :: string
  operation :: string
  language :: "string option"
  description :: string

record test_file =
  test_file_path :: string
  test_content :: string
  test_framework :: string
  test_count :: int
  coverage_targets :: "string list"

record code_generation =
  files_to_create :: "file_change list"
  test_files :: "test_file list"
  commit_message :: string
  pr_title :: string
  pr_description :: string
  branch_name :: string
  new_dependencies :: "string list"
  environment_variables :: "(string \<times> string) list"
  migration_steps :: "string list"
  breaking_changes :: "string list"
  estimated_test_time_seconds :: "int option"

record code_generation_result =
  generation :: code_generation
  pr_number :: "int option"
  pr_url :: "string option"
  result_status :: string
  error_message :: "string option"

text \<open>
  The records are the Pydantic models, field for field, with three differences: the
  \<open>created_at\<close>, \<open>updated_at\<close> and \<open>timestamp\<close> fields (\<open>datetime.utcnow()\<close>) are
  left out, the \<open>review\<close> field of \<open>CodeGenerationResult\<close> (never set) is left out, and a
  field name used by two models is prefixed in the second (\<open>TestFile.file_path\<close> is
  \<open>test_file_path\<close>, \<open>CodeGeneration.dependencies\<close> is \<open>new_dependencies\<close>,
  \<open>CodeGenerationResult.status\<close> is \<open>result_status\<close>).
\<close>

definition add_turn ::
  "conversation_state \<Rightarrow> string list \<Rightarrow> string list option \<Rightarrow> conversation_turn \<times> conversation_state" where
  "add_turn self agent_qs responses =
     (let turn = \<lparr>turn_number = int (length (turns self)) + 1,
                   agent_questions = agent_qs, user_responses = responses\<rparr>
      in (turn, self\<lparr>turns := turns self @ [turn]\<rparr>))"

definition update_analysis :: "conversation_state \<Rightarrow> issue_analysis \<Rightarrow> conversation_state" where
  "update_analysis self analysis =
     self\<lparr>current_analysis := Some analysis,
          status := (if is_complete analysis then ''ready_for_dev''
                     else if needs_clarification analysis then ''needs_clarification''
                     else ''analyzing'')\<rparr>"

definition py_strs :: "string list \<Rightarrow> pyval" where
  "py_strs xs = PyList (map PyStr xs)"

definition py_opt_str :: "string option \<Rightarrow> pyval" where
  "py_opt_str x = (case x of None \<Rightarrow> PyNone | Some s \<Rightarrow> PyStr s)"

definition py_opt_int :: "int option \<Rightarrow> pyval" where
  "py_opt_int x = (case x of None \<Rightarrow> PyNone | Some i \<Rightarrow> PyInt i)"

definition analysis_model_dump :: "issue_analysis \<Rightarrow> pydict" where
  "analysis_model_dump a =
     [(''needs_clarification'', PyBool (needs_clarification a)),
      (''questions'', py_strs (questions a)),
      (''refined_description'', py_opt_str (refined_description a)),
      (''is_complete'', PyBool (is_complete a)),
      (''estimated_complexity'', PyStr (estimated_complexity a)),
      (''suggested_labels'', py_strs (suggested_labels a)),
      (''acceptance_criteria'', py_strs (acceptance_criteria a)),
      (''technical_considerations'', py_strs (technical_considerations a)),
      (''dependencies'', py_strs (dependencies a)),
      (''estimated_effort_hours'',
         (case estimated_effort_hours a of None \<Rightarrow> PyNone | Some x \<Rightarrow> PyFloat x))]"

definition file_change_model_dump :: "file_change \<Rightarrow> pydict" where
  "file_change_model_dump f =
     [(''file_path'', PyStr (file_path f)),
      (''content'', PyStr (content f)),
      (''operation'', PyStr (operation f)),
      (''language'', py_opt_str (language f)),
      (''description'', PyStr (description f))]"

definition test_file_model_dump :: "test_file \<Rightarrow> pydict" where
  "test_file_model_dump t =
     [(''file_path'', PyStr (test_file_path t)),
      (''content'', PyStr (test_content t)),
      (''test_framework'', PyStr (test_framework t)),
      (''test_count'', PyInt (test_count t)),
      (''coverage_targets'', py_strs (coverage_targets t))]"

section \<open>Programs over the outside world\<close>

record env =
  respond :: "call list \<Rightarrow> call \<Rightarrow> reply"
  parse_issue_analysis :: "string \<Rightarrow> error + issue_analysis"
  parse_code_generation :: "string \<Rightarrow> error + code_generation"
  json_loads :: "byte list \<Rightarrow> error + pyval"
  github_webhook_secret :: "string"
  github_repo :: "string"

text \<open>
  \<open>respond\<close> is the oracle. \<open>parse_issue_analysis\<close> and \<open>parse_code_generation\<close> are
  LangChain's \<open>PydanticOutputParser.parse\<close> for the two models, \<open>json_loads\<close> is the
  JSON parser behind \<open>request.json()\<close>; the last two fields are the settings the code
  reads.
\<close>

type_synonym 'a prog = "call list \<Rightarrow> (error + 'a) \<times> call list"

definition ret :: "'a \<Rightarrow> 'a prog" where
  "ret x h = (Inr x, h)"

definition raise :: "error \<Rightarrow> 'a prog" where
  "raise e h = (Inl e, h)"

definition bind :: "'a prog \<Rightarrow> ('a \<Rightarrow> 'b prog) \<Rightarrow> 'b prog" where
  "bind m f h = (case m h of (Inl e, h') \<Rightarrow> (Inl e, h') | (Inr a, h') \<Rightarrow> f a h')"

definition try_except :: "'a prog \<Rightarrow> (error \<Rightarrow> 'a prog) \<Rightarrow> 'a prog" where
  "try_except m handler h =
     (case m h of (Inl e, h') \<Rightarrow> handler e h' | (Inr a, h') \<Rightarrow> (Inr a, h'))"

definition lift :: "error + 'a \<Rightarrow> 'a prog" where
  "lift r h = (r, h)"

definition perform :: "env \<Rightarrow> call \<Rightarrow> reply prog" where
  "perform E c h =
     (case respond E h c of Failed e \<Rightarrow> (Inl e, h @ [c]) | r \<Rightarrow> (Inr r, h @ [c]))"

fun for_each :: "('a \<Rightarrow> unit prog) \<Rightarrow> 'a list \<Rightarrow> unit prog" where
  "for_each body [] = ret ()"
| "for_each body (x # xs) = bind (body x) (\<lambda>_. for_each body xs)"

text \<open>
  \<open>bind\<close> is sequencing (an exception ends the run), \<open>try_except m handler\<close> is
  \<open>try: m except Exception as e: handler(e)\<close>; a handler for one exception class
  re-raises the others. \<open>for_each\<close> is a \<open>for\<close> loop over a list.
\<close>

subsection \<open>Python built-ins\<close>

function str_nat :: "nat \<Rightarrow> string" where
  "str_nat n = (if n < 10 then [char_of (48 + n)]
                else str_nat (n div 10) @ [char_of (48 + n mod 10)])"
  by pat_completeness auto
termination
  by (relation "measure id") auto

definition str_int :: "int \<Rightarrow> string" where
  "str_int i = (if i < 0 then CHR ''-'' # str_nat (nat (- i)) else str_nat (nat i))"

definition fstr_opt :: "string option \<Rightarrow> string" where
  "fstr_opt x = (case x of None \<Rightarrow> ''None'' | Some s \<Rightarrow> s)"

definition nl :: string where
  "nl = [CHR 0x0A]"

fun truthy :: "pyval \<Rightarrow> bool" where
  "truthy PyNone = False"
| "truthy (PyBool b) = b"
| "truthy (PyInt i) = (i \<noteq> 0)"
| "truthy (PyFloat x) = (x \<noteq> 0)"
| "truthy (PyStr s) = (s \<noteq> [])"
| "truthy (PyList xs) = (xs \<noteq> [])"
| "truthy (PyDict d) = (d \<noteq> [])"
| "truthy (PyJson v) = True"

definition py_get :: "pyval \<Rightarrow> string \<Rightarrow> pyval \<Rightarrow> error + pyval" where
  "py_get obj key dflt =
     (case obj of
        PyDict d \<Rightarrow> Inr (case map_of d key of None \<Rightarrow> dflt | Some v \<Rightarrow> v)
      | _ \<Rightarrow> Inl (AttributeError ''object has no attribute get''))"

definition py_item :: "pydict \<Rightarrow> string \<Rightarrow> error + pyval" where
  "py_item d key = (case map_of d key of None \<Rightarrow> Inl (KeyError key) | Some v \<Rightarrow> Inr v)"

fun py_in :: "string \<Rightarrow> string \<Rightarrow> bool" where
  "py_in needle [] = (needle = [])"
| "py_in needle (c # cs) = (take (length needle) (c # cs) = needle \<or> py_in needle cs)"

definition enumerate_lines :: "string list \<Rightarrow> string" where
  "enumerate_lines xs =
     concat (map (\<lambda>(i, x). str_nat i @ ''. '' @ x @ nl) (zip [1..<Suc (length xs)] xs))"

text \<open>
  \<open>str_int\<close> is \<open>str\<close> on an \<open>int\<close>, \<open>fstr_opt\<close> an f-string field holding an
  optional string, \<open>truthy\<close> is Python's truth value, \<open>py_get obj key dflt\<close> is
  \<open>obj.get(key, dflt)\<close> (only a dict has the method), \<open>py_item d key\<close> is \<open>d[key]\<close>,
  \<open>py_in needle hay\<close> is \<open>needle in hay\<close> on strings, and \<open>enumerate_lines\<close> is
  the loop \<open>for i, x in enumerate(xs, 1): text += f"{i}. {x}\n"\<close>.
\<close>

section \<open>The GitHub client (\<open>src/utils/github_api.py\<close>)\<close>

definition reraise_unless_github :: "(int \<Rightarrow> string \<Rightarrow> 'a prog) \<Rightarrow> error \<Rightarrow> 'a prog" where
  "reraise_unless_github handler e =
     (case e of GithubException st data \<Rightarrow> handler st data | _ \<Rightarrow> raise e)"

definition expect_pull :: "reply \<Rightarrow> (int \<times> string option) prog" where
  "expect_pull r = (case r of Pull n b \<Rightarrow> ret (n, b)
                    | _ \<Rightarrow> raise (AttributeError ''not a pull request''))"

definition expect_ref_sha :: "reply \<Rightarrow> string prog" where
  "expect_ref_sha r = (case r of GitRef sha \<Rightarrow> ret sha
                       | _ \<Rightarrow> raise (AttributeError ''not a git ref''))"

definition expect_file_sha :: "reply \<Rightarrow> string prog" where
  "expect_file_sha r = (case r of ContentFile sha \<Rightarrow> ret sha
                        | _ \<Rightarrow> raise (AttributeError ''object has no attribute sha''))"

definition github_client_init :: "env \<Rightarrow> string \<Rightarrow> unit prog" where
  "github_client_init E name = bind (perform E (GetRepo name)) (\<lambda>_. ret ())"

definition create_issue_comment :: "env \<Rightarrow> int \<Rightarrow> string \<Rightarrow> unit prog" where
  "create_issue_comment E number comment_body =
     bind (perform E (GetIssue number)) (\<lambda>_.
     bind (perform E (CreateComment number comment_body)) (\<lambda>_. ret ()))"

definition add_labels_to_issue :: "env \<Rightarrow> int \<Rightarrow> string list \<Rightarrow> unit prog" where
  "add_labels_to_issue E number labels =
     bind (perform E (GetIssue number)) (\<lambda>_.
     bind (perform E (AddToLabels number labels)) (\<lambda>_. ret ()))"

definition remove_labels_from_issue :: "env \<Rightarrow> int \<Rightarrow> string list \<Rightarrow> unit prog" where
  "remove_labels_from_issue E number labels =
     bind (perform E (GetIssue number)) (\<lambda>_.
     for_each (\<lambda>label.
        try_except (bind (perform E (RemoveFromLabels number label)) (\<lambda>_. ret ()))
                   (reraise_unless_github (\<lambda>st data. ret ())))
       labels)"

definition vcs_create_pull_request ::
  "env \<Rightarrow> string \<Rightarrow> string \<Rightarrow> string \<Rightarrow> string \<Rightarrow> (int \<times> string option) prog" where
  "vcs_create_pull_request E title body head_branch base_branch =
     bind (perform E (CreatePull title body head_branch base_branch)) expect_pull"

definition link_issue_to_pr :: "env \<Rightarrow> int \<Rightarrow> int \<Rightarrow> unit prog" where
  "link_issue_to_pr E pr_num issue_num =
     bind (perform E (GetPull pr_num)) (\<lambda>r.
     bind (expect_pull r) (\<lambda>(n, body).
       (let current_body = (case body of None \<Rightarrow> [] | Some b \<Rightarrow> b);
            closes_text = ''Closes #'' @ str_int issue_num
        in if \<not> py_in closes_text current_body
           then bind (perform E (EditPull pr_num (current_body @ nl @ nl @ closes_text)))
                     (\<lambda>_. ret ())
           else ret ())))"

definition create_branch :: "env \<Rightarrow> string \<Rightarrow> string \<Rightarrow> unit prog" where
  "create_branch E name from_branch =
     bind (perform E (GetGitRef (''heads/'' @ from_branch))) (\<lambda>base_ref.
     bind (expect_ref_sha base_ref) (\<lambda>base_sha.
     bind (perform E (CreateGitRef (''refs/heads/'' @ name) base_sha)) (\<lambda>_. ret ())))"

definition branch_exists :: "env \<Rightarrow> string \<Rightarrow> bool prog" where
  "branch_exists E name =
     try_except (bind (perform E (GetGitRef (''heads/'' @ name))) (\<lambda>_. ret True))
                (reraise_unless_github (\<lambda>st data. ret False))"

definition create_or_update_file ::
  "env \<Rightarrow> string \<Rightarrow> string \<Rightarrow> string \<Rightarrow> string \<Rightarrow> unit prog" where
  "create_or_update_file E path text message branch =
     try_except
       (bind (perform E (GetContents path branch)) (\<lambda>existing_file.
        bind (expect_file_sha existing_file) (\<lambda>sha.
        bind (perform E (UpdateFile path message text sha branch)) (\<lambda>_. ret ()))))
       (reraise_unless_github (\<lambda>st data.
          if st = 404
          then bind (perform E (CreateFile path message text branch)) (\<lambda>_. ret ())
          else raise (GithubException st data)))"

text \<open>
  Every method of \<open>GitHubClient\<close> wraps its body in
  \<open>try: ... except GithubException as e: logger.error(...); raise\<close>, which changes
  nothing and is not written. The handlers that do something are kept:
  \<open>remove_labels_from_issue\<close> swallows a \<open>GithubException\<close> for each label,
  \<open>branch_exists\<close> turns one into \<open>False\<close>, and \<open>create_or_update_file\<close> creates the
  file when reading or updating it raised one with status 404. The default argument
  \<open>from_branch="main"\<close> of \<open>create_branch\<close> is passed by its caller.
\<close>

section \<open>The Supabase client (\<open>src/utils/supabase_client.py\<close>)\<close>

definition response_data :: "reply \<Rightarrow> pydict list" where
  "response_data r = (case r of Rows rs \<Rightarrow> rs | _ \<Rightarrow> [])"

definition first_id :: "pydict list \<Rightarrow> string \<Rightarrow> pyval prog" where
  "first_id rows message =
     (case rows of [] \<Rightarrow> raise (PyException message)
      | row # _ \<Rightarrow> lift (py_item row ''id''))"

definition create_conversation :: "env \<Rightarrow> int \<Rightarrow> int \<Rightarrow> string \<Rightarrow> pyval prog" where
  "create_conversation E iid number repo =
     bind (perform E (DbInsert ''conversations''
             [(''issue_id'', PyInt iid), (''issue_number'', PyInt number),
              (''repo_full_name'', PyStr repo), (''status'', PyStr ''analyzing''),
              (''turns'', PyList [])])) (\<lambda>response.
     first_id (response_data response) ''Failed to create conversation: No data returned'')"

definition get_conversation :: "env \<Rightarrow> int \<Rightarrow> string \<Rightarrow> pydict option prog" where
  "get_conversation E number repo =
     bind (perform E (DbSelect ''conversations''
             [(''issue_number'', PyInt number), (''repo_full_name'', PyStr repo)])) (\<lambda>response.
     (case response_data response of [] \<Rightarrow> ret None | row # _ \<Rightarrow> ret (Some row)))"

definition update_conversation_status :: "env \<Rightarrow> pyval \<Rightarrow> string \<Rightarrow> unit prog" where
  "update_conversation_status E conversation_id new_status =
     bind (perform E (DbUpdate ''conversations'' [(''status'', PyStr new_status)]
                        ''id'' conversation_id)) (\<lambda>response.
     if response_data response = []
     then raise (PyException ''Failed to update conversation status'')
     else ret ())"

definition update_conversation_analysis :: "env \<Rightarrow> pyval \<Rightarrow> pydict \<Rightarrow> unit prog" where
  "update_conversation_analysis E conversation_id analysis =
     bind (perform E (DbUpdate ''conversations'' [(''analysis'', PyJson (PyDict analysis))]
                        ''id'' conversation_id)) (\<lambda>response.
     if response_data response = []
     then raise (PyException ''Failed to update conversation analysis'')
     else ret ())"

definition log_agent_action ::
  "env \<Rightarrow> pyval \<Rightarrow> string \<Rightarrow> string \<Rightarrow> pydict \<Rightarrow> pyval prog" where
  "log_agent_action E conversation_id agent_type action_type payload =
     bind (perform E (DbInsert ''agent_actions''
             [(''conversation_id'', conversation_id), (''agent_type'', PyStr agent_type),
              (''action_type'', PyStr action_type), (''payload'', PyJson (PyDict payload)),
              (''status'', PyStr ''success'')])) (\<lambda>response.
     first_id (response_data response) ''Failed to log agent action'')"

definition create_code_generation ::
  "env \<Rightarrow> pyval \<Rightarrow> int option \<Rightarrow> pydict \<Rightarrow> pydict \<Rightarrow> string \<Rightarrow> pyval prog" where
  "create_code_generation E conversation_id pr_num files_changed tests_generated st =
     bind (perform E (DbInsert ''code_generations''
             [(''conversation_id'', conversation_id), (''pr_number'', py_opt_int pr_num),
              (''files_changed'', PyJson (PyDict files_changed)),
              (''tests_generated'', PyJson (PyDict tests_generated)),
              (''status'', PyStr st)])) (\<lambda>response.
     first_id (response_data response) ''Failed to create code generation record'')"

definition update_code_generation_status ::
  "env \<Rightarrow> pyval \<Rightarrow> string \<Rightarrow> int option \<Rightarrow> string option \<Rightarrow> unit prog" where
  "update_code_generation_status E generation_id st pr_num err =
     bind (perform E (DbUpdate ''code_generations''
             ([(''status'', PyStr st)]
              @ (case pr_num of None \<Rightarrow> [] | Some n \<Rightarrow> [(''pr_number'', PyInt n)])
              @ (case err of None \<Rightarrow> [] | Some m \<Rightarrow> [(''error_message'', PyStr m)]))
             ''id'' generation_id)) (\<lambda>response.
     if response_data response = []
     then raise (PyException ''Failed to update code generation status'')
     else ret ())"

text \<open>
  \<open>response_data\<close> is \<open>response.data\<close>: the rows, or nothing when the reply carries
  none. \<open>first_id rows message\<close> is
  \<open>if not response.data: raise Exception(message)\<close> followed by
  \<open>response.data[0]["id"]\<close>. An identifier stays the Python value the database returned.
  The handlers \<open>except APIError as e: logger.error(...); raise\<close> change nothing.
\<close>

section \<open>The base agent (\<open>src/agents/base.py\<close>)\<close>

definition str_of_error :: "error \<Rightarrow> string" where
  "str_of_error e =
     (case e of
        GithubException st data \<Rightarrow> str_int st @ '' '' @ data
      | APIError m \<Rightarrow> m
      | PyException m \<Rightarrow> m
      | AttributeError m \<Rightarrow> m
      | KeyError k \<Rightarrow> [CHR 0x27] @ k @ [CHR 0x27]
      | IndexError m \<Rightarrow> m
      | TypeError m \<Rightarrow> m
      | ValidationError m \<Rightarrow> m
      | OutputParserException m \<Rightarrow> m
      | JSONDecodeError m \<Rightarrow> m
      | RetryError _ \<Rightarrow> ''RetryError''
      | HTTPException st detail \<Rightarrow> str_int st @ '': '' @ detail)"

text \<open>
  \<open>str_of_error\<close> is \<open>str(e)\<close>. An exception built from a message prints the message,
  a \<open>KeyError\<close> prints the key in quotes, PyGithub prints a \<open>GithubException\<close> as its
  status code followed by its payload. Tenacity prints a \<open>RetryError\<close> with the address
  of a future object; only the class name is kept.
\<close>

definition expect_content :: "reply \<Rightarrow> string prog" where
  "expect_content r = (case r of Content text \<Rightarrow> ret text
                       | _ \<Rightarrow> raise (AttributeError ''object has no attribute content''))"

definition invoke_llm :: "env \<Rightarrow> string \<Rightarrow> prompt \<Rightarrow> string prog" where
  "invoke_llm E agent_name p = bind (perform E (LlmInvoke agent_name p)) expect_content"

fun retry_attempts :: "nat \<Rightarrow> 'a prog \<Rightarrow> 'a prog" where
  "retry_attempts 0 m = try_except m (\<lambda>e. raise (RetryError e))"
| "retry_attempts (Suc n) m =
     try_except m (\<lambda>e. if n = 0 then raise (RetryError e) else retry_attempts n m)"

definition invoke_with_retry :: "env \<Rightarrow> string \<Rightarrow> prompt \<Rightarrow> string prog" where
  "invoke_with_retry E agent_name p = retry_attempts 3 (invoke_llm E agent_name p)"

text \<open>
  \<open>retry_attempts n\<close> is tenacity's \<open>@retry(stop=stop_after_attempt(n), wait=...)\<close>:
  the call is made again after any exception until attempt \<open>n\<close> has failed, and then
  \<open>RetryError\<close> is raised (\<open>reraise\<close> is not set). The waits between attempts are
  not modelled. \<open>max_retries\<close> is 3 at every call site.
\<close>

definition log_action :: "env \<Rightarrow> string \<Rightarrow> string \<Rightarrow> pydict \<Rightarrow> pyval \<Rightarrow> pyval prog" where
  "log_action E agent_name action_type payload conversation_id =
     log_agent_action E conversation_id agent_name action_type payload"

definition update_conversation_state ::
  "env \<Rightarrow> pyval \<Rightarrow> string \<Rightarrow> pydict option \<Rightarrow> unit prog" where
  "update_conversation_state E conversation_id new_status analysis =
     bind (update_conversation_status E conversation_id new_status) (\<lambda>_.
     (case analysis of
        None \<Rightarrow> ret ()
      | Some a \<Rightarrow> if a \<noteq> [] then update_conversation_analysis E conversation_id a
                  else ret ()))"

definition get_or_create_conversation :: "env \<Rightarrow> int \<Rightarrow> int \<Rightarrow> string \<Rightarrow> pyval prog" where
  "get_or_create_conversation E number iid repo =
     bind (get_conversation E number repo) (\<lambda>conversation.
     (case conversation of
        None \<Rightarrow> create_conversation E iid number repo
      | Some row \<Rightarrow> if row \<noteq> [] then lift (py_item row ''id'')
                    else create_conversation E iid number repo))"

definition format_github_comment :: "string \<Rightarrow> string \<Rightarrow> string" where
  "format_github_comment agent_name text =
     text @ nl @ nl @ ''---'' @ nl @ ''*'' @ agent_name @ '' ''
       @ [CHR 0xF0, CHR 0x9F, CHR 0xA4, CHR 0x96] @ ''*''"

section \<open>The Product Owner agent (\<open>src/agents/product_owner.py\<close>)\<close>

definition po_name :: string where
  "po_name = ''ProductOwnerAgent''"

definition analyze_issue ::
  "env \<Rightarrow> int \<Rightarrow> string \<Rightarrow> string option \<Rightarrow> string list option \<Rightarrow> issue_analysis prog" where
  "analyze_issue E number title body existing_labels =
     bind (invoke_with_retry E po_name (AnalysisPrompt title body existing_labels)) (\<lambda>response.
     bind (lift (parse_issue_analysis E response)) (\<lambda>analysis.
     bind (log_action E po_name ''issue_analyzed''
             [(''issue_number'', PyInt number),
              (''needs_clarification'', PyBool (needs_clarification analysis)),
              (''question_count'', PyInt (int (length (questions analysis)))),
              (''estimated_complexity'', PyStr (estimated_complexity analysis))]
             PyNone) (\<lambda>_.
     ret analysis)))"

definition ask_clarifying_questions :: "env \<Rightarrow> int \<Rightarrow> string list \<Rightarrow> unit prog" where
  "ask_clarifying_questions E number qs =
     (let comment_body =
            ''## '' @ [CHR 0xC3, CHR 0xB0, CHR 0xC5, CHR 0xB8, CHR 0xC2, CHR 0xA4,
                      CHR 0xE2, CHR 0x80, CHR 0x9D]
            @ '' Clarification Needed'' @ nl @ nl
            @ ''To better understand this requirement, I have some questions:'' @ nl @ nl
            @ enumerate_lines qs
            @ nl @ ''Please provide answers so I can refine the requirements for development.''
      in bind (create_issue_comment E number (format_github_comment po_name comment_body)) (\<lambda>_.
         bind (add_labels_to_issue E number [''needs-clarification'']) (\<lambda>_.
         bind (log_action E po_name ''questions_asked''
                 [(''issue_number'', PyInt number), (''questions'', py_strs qs)] PyNone) (\<lambda>_.
         ret ()))))"

definition mark_ready_for_development ::
  "env \<Rightarrow> int \<Rightarrow> string option \<Rightarrow> string list \<Rightarrow> string list \<Rightarrow> unit prog" where
  "mark_ready_for_development E number refined criteria labels =
     (let comment_body =
            ''## '' @ [CHR 0xC3, CHR 0xA2, CHR 0xC5, CHR 0x93, CHR 0xE2, CHR 0x80, CHR 0xA6]
            @ '' Requirements Refined'' @ nl @ nl
            @ ''**Refined Description:**'' @ nl @ fstr_opt refined @ nl @ nl
            @ (if criteria \<noteq> []
               then ''**Acceptance Criteria:**'' @ nl @ enumerate_lines criteria @ nl
               else [])
            @ ''This issue is now ready for development!''
      in bind (create_issue_comment E number (format_github_comment po_name comment_body)) (\<lambda>_.
         bind (remove_labels_from_issue E number [''needs-clarification'']) (\<lambda>_.
         bind (add_labels_to_issue E number (labels @ [''ready-for-dev''])) (\<lambda>_.
         bind (log_action E po_name ''marked_ready_for_dev''
                 [(''issue_number'', PyInt number),
                  (''refined_description'', py_opt_str refined),
                  (''acceptance_criteria_count'', PyInt (int (length criteria)))] PyNone) (\<lambda>_.
         ret ())))))"

definition process_user_response :: "env \<Rightarrow> pyval \<Rightarrow> string list \<Rightarrow> issue_analysis prog" where
  "process_user_response E conversation_id responses =
     bind (invoke_with_retry E po_name (FollowUpPrompt responses)) (\<lambda>response.
     bind (lift (parse_issue_analysis E response)) (\<lambda>analysis.
     bind (log_action E po_name ''user_response_processed''
             [(''conversation_id'', conversation_id),
              (''still_needs_clarification'', PyBool (needs_clarification analysis)),
              (''is_complete'', PyBool (is_complete analysis))]
             conversation_id) (\<lambda>_.
     ret analysis)))"

definition py_or :: "string option \<Rightarrow> string option \<Rightarrow> string option" where
  "py_or a b = (case a of None \<Rightarrow> b | Some s \<Rightarrow> if s = [] then b else Some s)"

definition handle_issue_workflow ::
  "env \<Rightarrow> int \<Rightarrow> int \<Rightarrow> string \<Rightarrow> string option \<Rightarrow> string \<Rightarrow> conversation_state prog" where
  "handle_issue_workflow E number iid title body repo =
     bind (get_or_create_conversation E number iid repo) (\<lambda>conversation_id.
     bind (analyze_issue E number title body None) (\<lambda>analysis.
     bind (update_conversation_state E conversation_id
             (if needs_clarification analysis then ''needs_clarification'' else ''ready_for_dev'')
             (Some (analysis_model_dump analysis))) (\<lambda>_.
     bind (if needs_clarification analysis
           then ask_clarifying_questions E number (questions analysis)
           else if is_complete analysis
           then mark_ready_for_development E number
                  (py_or (refined_description analysis) body)
                  (acceptance_criteria analysis) (suggested_labels analysis)
           else ret ()) (\<lambda>_.
     ret \<lparr>issue_id = iid, issue_number = number, repo_full_name = repo,
          status = (if needs_clarification analysis then ''needs_clarification''
                    else ''ready_for_dev''),
          turns = [], current_analysis = Some analysis\<rparr>))))"

text \<open>
  The issue body is optional: GitHub sends \<open>null\<close> for an empty body, and
  \<open>issue.get("body", "")\<close> then yields \<open>None\<close>, which the f-strings print as
  \<open>None\<close>. \<open>py_or a b\<close> is \<open>a or b\<close> on optional strings. \<open>analyze_issue\<close> is
  always called without \<open>additional_context\<close>, which is not modelled.
\<close>

section \<open>The Developer agent (\<open>src/agents/developer.py\<close>)\<close>

definition dev_name :: string where
  "dev_name = ''DeveloperAgent''"

definition get_tech_stack_context :: pydict where
  "get_tech_stack_context =
     [(''language'', PyStr ''python''), (''version'', PyStr ''3.10+''),
      (''testing'', PyStr ''pytest'')]"

definition generate_code :: "env \<Rightarrow> int \<Rightarrow> string \<Rightarrow> string list \<Rightarrow> code_generation prog" where
  "generate_code E number requirements criteria =
     bind (invoke_with_retry E dev_name
             (GenerationPrompt requirements criteria get_tech_stack_context)) (\<lambda>response.
     bind (lift (parse_code_generation E response)) (\<lambda>code_gen.
     bind (log_action E dev_name ''code_generated''
             [(''issue_number'', PyInt number),
              (''files_count'', PyInt (int (length (files_to_create code_gen)))),
              (''tests_count'', PyInt (int (length (test_files code_gen)))),
              (''branch_name'', PyStr (branch_name code_gen))] PyNone) (\<lambda>_.
     ret code_gen)))"

definition materialize :: "env \<Rightarrow> int \<Rightarrow> code_generation \<Rightarrow> int prog" where
  "materialize E number cg =
     bind (branch_exists E (branch_name cg)) (\<lambda>exists.
     bind (if \<not> exists then create_branch E (branch_name cg) ''main'' else ret ()) (\<lambda>_.
     bind (for_each (\<lambda>file_change.
             create_or_update_file E (file_path file_change) (content file_change)
               (''Add '' @ file_path file_change) (branch_name cg))
            (files_to_create cg)) (\<lambda>_.
     bind (for_each (\<lambda>test_file.
             create_or_update_file E (test_file_path test_file) (test_content test_file)
               (''Add tests: '' @ test_file_path test_file) (branch_name cg))
            (test_files cg)) (\<lambda>_.
     bind (vcs_create_pull_request E (pr_title cg) (pr_description cg) (branch_name cg)
             ''main'') (\<lambda>pr.
     bind (link_issue_to_pr E (fst pr) number) (\<lambda>_.
     ret (fst pr)))))))"

definition files_changed_of :: "code_generation \<Rightarrow> pydict" where
  "files_changed_of cg =
     [(''files'', PyList (map (\<lambda>f. PyDict (file_change_model_dump f)) (files_to_create cg)))]"

definition tests_generated_of :: "code_generation \<Rightarrow> pydict" where
  "tests_generated_of cg =
     [(''tests'', PyList (map (\<lambda>t. PyDict (test_file_model_dump t)) (test_files cg)))]"

definition create_pull_request ::
  "env \<Rightarrow> pyval \<Rightarrow> int \<Rightarrow> code_generation \<Rightarrow> code_generation_result prog" where
  "create_pull_request E conversation_id number cg =
     try_except
       (bind (materialize E number cg) (\<lambda>pr_num.
        bind (create_code_generation E conversation_id (Some pr_num)
                (files_changed_of cg) (tests_generated_of cg) ''pr_created'') (\<lambda>generation_id.
        bind (log_action E dev_name ''pr_created''
                [(''pr_number'', PyInt pr_num), (''issue_number'', PyInt number),
                 (''branch_name'', PyStr (branch_name cg)),
                 (''files_count'', PyInt (int (length (files_to_create cg)))),
                 (''tests_count'', PyInt (int (length (test_files cg))))]
                conversation_id) (\<lambda>_.
        ret \<lparr>generation = cg, pr_number = Some pr_num,
             pr_url = Some (''https://github.com/'' @ github_repo E @ ''/pull/''
                            @ str_int pr_num),
             result_status = ''pr_created'', error_message = None\<rparr>))))
       (\<lambda>e.
        bind (create_code_generation E conversation_id None
                (files_changed_of cg) (tests_generated_of cg) ''failed'') (\<lambda>generation_id.
        bind (update_code_generation_status E generation_id ''failed'' None
                (Some (str_of_error e))) (\<lambda>_.
        ret \<lparr>generation = cg, pr_number = None, pr_url = None,
             result_status = ''failed'', error_message = Some (str_of_error e)\<rparr>)))"

text \<open>
  \<open>materialize\<close> is the first part of the \<open>try\<close> block of \<open>create_pull_request\<close>: the
  branch, the files, the tests, the pull request and the link to the issue. The rest of
  the block and the \<open>except Exception as e\<close> handler are in \<open>create_pull_request\<close>.
\<close>

definition handle_ready_for_dev_issue ::
  "env \<Rightarrow> pyval \<Rightarrow> int \<Rightarrow> string \<Rightarrow> string list \<Rightarrow> code_generation_result prog" where
  "handle_ready_for_dev_issue E conversation_id number requirements criteria =
     bind (generate_code E number requirements criteria) (\<lambda>cg.
     bind (create_pull_request E conversation_id number cg) (\<lambda>result.
     bind (case pr_url result of
             None \<Rightarrow> ret ()
           | Some url \<Rightarrow>
               if url = [] then ret ()
               else create_issue_comment E number
                      (format_github_comment dev_name
                         (''## '' @ [CHR 0xC3, CHR 0xB0, CHR 0xC5, CHR 0xB8, CHR 0xC5, CHR 0xA1,
                                    CHR 0xE2, CHR 0x82, CHR 0xAC]
                          @ '' Pull Request Created'' @ nl @ nl
                          @ ''I'' @ [CHR 0x27]
                          @ ''ve implemented this feature and created a pull request:''
                          @ nl @ nl
                          @ ''**PR:** '' @ url @ nl
                          @ ''**Branch:** `'' @ branch_name cg @ ''`'' @ nl @ nl
                          @ ''**Changes:**'' @ nl
                          @ ''- '' @ str_nat (length (files_to_create cg))
                          @ '' implementation files'' @ nl
                          @ ''- '' @ str_nat (length (test_files cg)) @ '' test files'' @ nl @ nl
                          @ ''The CI/CD pipeline will run automated tests. ''
                          @ ''Once tests pass, the PR will be ready for review.''))) (\<lambda>_.
     ret result)))"

section \<open>The orchestrator (\<open>src/workflows/issue_handler.py\<close>)\<close>

definition as_int :: "pyval \<Rightarrow> error + int" where
  "as_int v = (case v of PyInt i \<Rightarrow> Inr i | _ \<Rightarrow> Inl (TypeError ''int expected''))"

definition as_str :: "pyval \<Rightarrow> error + string" where
  "as_str v = (case v of PyStr s \<Rightarrow> Inr s | _ \<Rightarrow> Inl (TypeError ''str expected''))"

definition as_opt_str :: "pyval \<Rightarrow> error + string option" where
  "as_opt_str v = (case v of PyStr s \<Rightarrow> Inr (Some s) | PyNone \<Rightarrow> Inr None
                   | _ \<Rightarrow> Inl (TypeError ''str expected''))"

fun as_str_list :: "pyval list \<Rightarrow> error + string list" where
  "as_str_list [] = Inr []"
| "as_str_list (v # vs) =
     (case as_str v of Inl e \<Rightarrow> Inl e
      | Inr s \<Rightarrow> (case as_str_list vs of Inl e \<Rightarrow> Inl e | Inr ss \<Rightarrow> Inr (s # ss)))"

definition as_strs :: "pyval \<Rightarrow> error + string list" where
  "as_strs v = (case v of PyList vs \<Rightarrow> as_str_list vs
                | _ \<Rightarrow> Inl (TypeError ''list expected''))"

text \<open>
  The handlers declare \<open>int\<close> and \<open>str\<close> parameters, and Python does not check them:
  a value read from a JSON payload or a database row is passed on as it is. The model
  converts such a value where it enters a typed function and raises \<open>TypeError\<close> for a
  value of another type, where Python would go on with it. No statement below is about
  such a value.
\<close>

definition handle_new_issue ::
  "env \<Rightarrow> int \<Rightarrow> int \<Rightarrow> string \<Rightarrow> string option \<Rightarrow> string \<Rightarrow> conversation_state prog" where
  "handle_new_issue E number iid title body repo =
     handle_issue_workflow E number iid title body repo"

definition handle_issue_comment ::
  "env \<Rightarrow> int \<Rightarrow> string \<Rightarrow> string \<Rightarrow> conversation_state option prog" where
  "handle_issue_comment E number comment_body repo =
     bind (get_conversation E number repo) (\<lambda>conversation.
     (case conversation of
        None \<Rightarrow> ret None
      | Some row \<Rightarrow>
          if row = [] then ret None
          else
            bind (lift (py_item row ''status'')) (\<lambda>current_status.
            if current_status \<noteq> PyStr ''needs_clarification'' then ret None
            else
              bind (lift (py_item row ''id'')) (\<lambda>conversation_id.
              bind (process_user_response E conversation_id [comment_body]) (\<lambda>analysis.
              bind (update_conversation_state E conversation_id
                      (if is_complete analysis then ''ready_for_dev''
                       else ''needs_clarification'')
                      (Some (analysis_model_dump analysis))) (\<lambda>_.
              bind (if needs_clarification analysis
                    then ask_clarifying_questions E number (questions analysis)
                    else if is_complete analysis
                    then mark_ready_for_development E number
                           (py_or (refined_description analysis) (Some []))
                           (acceptance_criteria analysis) (suggested_labels analysis)
                    else ret ()) (\<lambda>_.
              bind (lift (py_item row ''issue_id'')) (\<lambda>iid_value.
              bind (lift (case iid_value of PyInt i \<Rightarrow> Inr i
                          | _ \<Rightarrow> Inl (ValidationError ''issue_id''))) (\<lambda>iid.
              ret (Some \<lparr>issue_id = iid, issue_number = number, repo_full_name = repo,
                         status = (if is_complete analysis then ''ready_for_dev''
                                   else ''needs_clarification''),
                         turns = [], current_analysis = Some analysis\<rparr>))))))))))"

definition handle_label_added ::
  "env \<Rightarrow> int \<Rightarrow> string \<Rightarrow> string \<Rightarrow> code_generation_result option prog" where
  "handle_label_added E number label_name repo =
     (if label_name \<noteq> ''ready-for-dev'' then ret None
      else
        bind (get_conversation E number repo) (\<lambda>conversation.
        (case conversation of
           None \<Rightarrow> ret None
         | Some row \<Rightarrow>
             if row = [] then ret None
             else
               bind (lift (py_get (PyDict row) ''analysis'' (PyDict []))) (\<lambda>analysis.
               bind (lift (py_get analysis ''refined_description'' (PyStr []))) (\<lambda>requirements.
               bind (lift (py_get analysis ''acceptance_criteria'' (PyList []))) (\<lambda>criteria.
               if \<not> truthy requirements then ret None
               else
                 bind (lift (py_item row ''id'')) (\<lambda>conversation_id.
                 bind (lift (as_str requirements)) (\<lambda>requirements_text.
                 bind (lift (as_strs criteria)) (\<lambda>criteria_list.
                 bind (handle_ready_for_dev_issue E conversation_id number
                         requirements_text criteria_list) (\<lambda>result.
                 ret (Some result)))))))))))"

definition handle_pr_opened :: "env \<Rightarrow> int option \<Rightarrow> string \<Rightarrow> unit prog" where
  "handle_pr_opened E linked_issue repo =
     (case linked_issue of
        None \<Rightarrow> ret ()
      | Some number \<Rightarrow>
          if number = 0 then ret ()
          else
            bind (get_conversation E number repo) (\<lambda>conversation.
            (case conversation of
               None \<Rightarrow> ret ()
             | Some row \<Rightarrow>
                 if row = [] then ret ()
                 else bind (lift (py_item row ''id'')) (\<lambda>conversation_id.
                      update_conversation_state E conversation_id ''in_development'' None))))"

text \<open>
  \<open>if not conversation\<close> holds for \<open>None\<close> and for an empty row. The state returned by
  \<open>handle_issue_comment\<close> is a Pydantic model whose \<open>issue_id\<close> must validate as an
  \<open>int\<close>. The \<open>pr_number\<close> argument of \<open>handle_pr_opened\<close> is only logged and is not
  a parameter here.
\<close>

section \<open>The signature verifier (\<open>api/webhooks.py\<close>)\<close>

subsection \<open>\<open>hashlib.sha256\<close> and \<open>hmac.new\<close>\<close>

text \<open>
  \<open>verify_github_signature\<close> calls \<open>hmac.new(key, msg, digestmod=hashlib.sha256)\<close> of
  the Python standard library. Both are written out: SHA-256 on byte lists, and the
  HMAC construction as \<open>hmac.py\<close> computes it (a key longer than the block size of 64
  bytes is hashed first, the key is then padded with zero bytes to the block size).
\<close>

definition sha256_k :: "32 word list" where
  "sha256_k = map word_of_nat
    [1116352408, 1899447441, 3049323471, 3921009573, 961987163, 1508970993,
     2453635748, 2870763221, 3624381080, 310598401, 607225278, 1426881987,
     1925078388, 2162078206, 2614888103, 3248222580, 3835390401, 4022224774,
     264347078, 604807628, 770255983, 1249150122, 1555081692, 1996064986,
     2554220882, 2821834349, 2952996808, 3210313671, 3336571891, 3584528711,
     113926993, 338241895, 666307205, 773529912, 1294757372, 1396182291,
     1695183700, 1986661051, 2177026350, 2456956037, 2730485921, 2820302411,
     3259730800, 3345764771, 3516065817, 3600352804, 4094571909, 275423344,
     430227734, 506948616, 659060556, 883997877, 958139571, 1322822218,
     1537002063, 1747873779, 1955562222, 2024104815, 2227730452, 2361852424,
     2428436474, 2756734187, 3204031479, 3329325298]"

definition sha256_init :: "32 word list" where
  "sha256_init = map word_of_nat
    [1779033703, 3144134277, 1013904242, 2773480762,
     1359893119, 2600822924, 528734635, 1541459225]"

definition be32 :: "byte list \<Rightarrow> 32 word" where
  "be32 bs = foldl (\<lambda>acc b. push_bit 8 acc OR ucast b) 0 (take 4 bs)"

definition be_bytes :: "nat \<Rightarrow> 'a::len word \<Rightarrow> byte list" where
  "be_bytes n v = map (\<lambda>i. ucast (drop_bit (8 * (n - 1 - i)) v)) [0..<n]"

definition sha256_pad :: "byte list \<Rightarrow> byte list" where
  "sha256_pad m =
     m @ [128] @ replicate ((119 - length m mod 64) mod 64) 0 @ be_bytes 8 (word_of_nat (8 * length m) :: 64 word)"

fun blocks64 :: "nat \<Rightarrow> byte list \<Rightarrow> byte list list" where
  "blocks64 0 bs = []"
| "blocks64 (Suc n) bs = take 64 bs # blocks64 n (drop 64 bs)"

definition small_sigma0 :: "32 word \<Rightarrow> 32 word" where
  "small_sigma0 x = word_rotr 7 x XOR word_rotr 18 x XOR drop_bit 3 x"

definition small_sigma1 :: "32 word \<Rightarrow> 32 word" where
  "small_sigma1 x = word_rotr 17 x XOR word_rotr 19 x XOR drop_bit 10 x"

definition big_sigma0 :: "32 word \<Rightarrow> 32 word" where
  "big_sigma0 x = word_rotr 2 x XOR word_rotr 13 x XOR word_rotr 22 x"

definition big_sigma1 :: "32 word \<Rightarrow> 32 word" where
  "big_sigma1 x = word_rotr 6 x XOR word_rotr 11 x XOR word_rotr 25 x"

fun schedule :: "nat \<Rightarrow> 32 word list \<Rightarrow> 32 word list" where
  "schedule 0 ws = ws"
| "schedule (Suc n) ws =
     (let t = length ws
      in schedule n (ws @ [small_sigma1 (ws ! (t - 2)) + ws ! (t - 7)
                           + small_sigma0 (ws ! (t - 15)) + ws ! (t - 16)]))"

definition sha256_round :: "32 word list \<Rightarrow> 32 word \<times> 32 word \<Rightarrow> 32 word list" where
  "sha256_round s kw =
     (case s of [a, b, c, d, e, f, g, h] \<Rightarrow>
        (let t1 = h + big_sigma1 e + ((e AND f) XOR (NOT e AND g)) + fst kw + snd kw;
             t2 = big_sigma0 a + ((a AND b) XOR (a AND c) XOR (b AND c))
         in [t1 + t2, a, b, c, d + t1, e, f, g])
      | _ \<Rightarrow> s)"

definition sha256_compress :: "32 word list \<Rightarrow> byte list \<Rightarrow> 32 word list" where
  "sha256_compress s block =
     (let w = schedule 48 (map (\<lambda>i. be32 (drop (4 * i) block)) [0..<16])
      in map2 (+) s (foldl sha256_round s (zip sha256_k w)))"

definition sha256 :: "byte list \<Rightarrow> byte list" where
  "sha256 m =
     (let p = sha256_pad m
      in concat (map (\<lambda>w. be_bytes 4 w)
                     (foldl sha256_compress sha256_init (blocks64 (length p div 64) p))))"

definition hmac_new :: "(byte list \<Rightarrow> byte list) \<Rightarrow> byte list \<Rightarrow> byte list \<Rightarrow> byte list" where
  "hmac_new digestmod key msg =
     (let key1 = (if length key > 64 then digestmod key else key);
          key2 = key1 @ replicate (64 - length key1) 0
      in digestmod (map (\<lambda>b. b XOR 0x5C) key2 @ digestmod (map (\<lambda>b. b XOR 0x36) key2 @ msg)))"

definition hex_digit :: "nat \<Rightarrow> char" where
  "hex_digit n = (if n < 10 then char_of (48 + n) else char_of (87 + n))"

definition hexdigest :: "byte list \<Rightarrow> string" where
  "hexdigest bs = concat (map (\<lambda>b. [hex_digit (unat b div 16), hex_digit (unat b mod 16)]) bs)"

subsection \<open>String helpers\<close>

definition startswith :: "string \<Rightarrow> string \<Rightarrow> bool" where
  "startswith s p = (take (length p) s = p)"

fun py_split :: "char \<Rightarrow> string \<Rightarrow> string list" where
  "py_split sep [] = [[]]"
| "py_split sep (c # cs) =
     (if c = sep then [] # py_split sep cs
      else (case py_split sep cs of [] \<Rightarrow> [[c]] | w # ws \<Rightarrow> (c # w) # ws))"

definition encode :: "string \<Rightarrow> byte list" where
  "encode s = map of_char s"

definition is_ascii :: "string \<Rightarrow> bool" where
  "is_ascii s = list_all (\<lambda>c. (of_char c :: nat) < 128) s"

definition compare_digest :: "string \<Rightarrow> string \<Rightarrow> error + bool" where
  "compare_digest a b =
     (if is_ascii a \<and> is_ascii b then Inr (a = b)
      else Inl (TypeError ''comparing strings with non-ASCII characters is not supported''))"

subsection \<open>\<open>verify_github_signature\<close>\<close>

definition verify_github_signature :: "byte list \<Rightarrow> string option \<Rightarrow> string \<Rightarrow> error + bool" where
  "verify_github_signature payload signature secret =
     (case signature of
        None \<Rightarrow> Inr False
      | Some sig \<Rightarrow>
          if sig = [] then Inr False
          else if \<not> startswith sig ''sha256='' then Inr False
          else (case py_split CHR ''='' sig of
                  _ # expected_signature # _ \<Rightarrow>
                    compare_digest (hexdigest (hmac_new sha256 (encode secret) payload))
                                   expected_signature
                | _ \<Rightarrow> Inl (IndexError ''list index out of range'')))"

definition sign :: "string \<Rightarrow> byte list \<Rightarrow> string" where
  "sign secret body = ''sha256='' @ hexdigest (hmac_new sha256 (encode secret) body)"

text \<open>
  \<open>sign\<close> is not part of the repository: it is the header GitHub sends for a body and a
  secret, the input the claims about the verifier speak of.
\<close>

section \<open>The webhook gateway (\<open>api/webhooks.py\<close>)\<close>

record request =
  x_github_event :: "string option"
  x_hub_signature_256 :: "string option"
  x_github_delivery :: "string option"
  raw_body :: "byte list"

datatype json_response = JSONResponse pydict int

definition py_format :: "pyval \<Rightarrow> string" where
  "py_format v =
     (case v of
        PyNone \<Rightarrow> ''None''
      | PyBool b \<Rightarrow> (if b then ''True'' else ''False'')
      | PyInt i \<Rightarrow> str_int i
      | PyStr s \<Rightarrow> s
      | _ \<Rightarrow> ''<object>'')"

definition ignored_action :: "pyval \<Rightarrow> json_response" where
  "ignored_action action =
     JSONResponse [(''status'', PyStr ''ignored''),
                   (''message'', PyStr (''Action '' @ [CHR 0x27] @ py_format action
                                        @ [CHR 0x27] @ '' not handled''))] 200"

text \<open>
  A request is the three headers the handler reads and the body. \<open>py_format\<close> is an
  f-string field; the \<open>repr\<close> of a float, a list or a dict is not written out.
  \<open>ignored_action\<close> is the response to an action no branch handles.
\<close>

definition create_agents :: "env \<Rightarrow> unit prog" where
  "create_agents E = github_client_init E (github_repo E)"

definition handle_issues_event :: "env \<Rightarrow> pyval \<Rightarrow> json_response prog" where
  "handle_issues_event E payload =
     bind (lift (py_get payload ''action'' PyNone)) (\<lambda>action.
     bind (lift (py_get payload ''issue'' (PyDict []))) (\<lambda>issue.
     bind (lift (py_get payload ''repository'' (PyDict []))) (\<lambda>repository.
     bind (lift (py_get issue ''number'' PyNone)) (\<lambda>number_value.
     bind (lift (py_get issue ''id'' PyNone)) (\<lambda>id_value.
     bind (lift (py_get issue ''title'' PyNone)) (\<lambda>title_value.
     bind (lift (py_get issue ''body'' (PyStr []))) (\<lambda>body_value.
     bind (lift (py_get repository ''full_name'' PyNone)) (\<lambda>repo_value.
     if action = PyStr ''opened'' then
       bind (lift (as_int number_value)) (\<lambda>number.
       bind (lift (as_int id_value)) (\<lambda>iid.
       bind (lift (as_str title_value)) (\<lambda>title.
       bind (lift (as_opt_str body_value)) (\<lambda>issue_body.
       bind (lift (as_str repo_value)) (\<lambda>repo.
       bind (handle_new_issue E number iid title issue_body repo) (\<lambda>state.
       ret (JSONResponse [(''status'', PyStr ''success''),
                          (''message'', PyStr ''Issue analyzed''),
                          (''conversation_status'', PyStr (status state))] 200)))))))
     else if action = PyStr ''labeled'' then
       bind (lift (py_get payload ''label'' (PyDict []))) (\<lambda>label.
       bind (lift (py_get label ''name'' PyNone)) (\<lambda>name_value.
       bind (lift (as_int number_value)) (\<lambda>number.
       bind (lift (as_str name_value)) (\<lambda>label_name.
       bind (lift (as_str repo_value)) (\<lambda>repo.
       bind (handle_label_added E number label_name repo) (\<lambda>result.
       (case result of
          Some r \<Rightarrow>
            ret (JSONResponse [(''status'', PyStr ''success''),
                               (''message'', PyStr ''Development triggered''),
                               (''pr_created'', PyBool (pr_number r \<noteq> None)),
                               (''pr_number'', py_opt_int (pr_number r))] 200)
        | None \<Rightarrow>
            ret (JSONResponse [(''status'', PyStr ''ignored''),
                               (''message'', PyStr ''Label not a trigger'')] 200))))))))
     else ret (ignored_action action)))))))))"

definition handle_issue_comment_event :: "env \<Rightarrow> pyval \<Rightarrow> json_response prog" where
  "handle_issue_comment_event E payload =
     bind (lift (py_get payload ''action'' PyNone)) (\<lambda>action.
     bind (lift (py_get payload ''issue'' (PyDict []))) (\<lambda>issue.
     bind (lift (py_get payload ''comment'' (PyDict []))) (\<lambda>comment.
     bind (lift (py_get payload ''repository'' (PyDict []))) (\<lambda>repository.
     bind (lift (py_get comment ''user'' (PyDict []))) (\<lambda>user.
     bind (lift (py_get user ''type'' PyNone)) (\<lambda>user_type.
     if user_type = PyStr ''Bot'' then
       ret (JSONResponse [(''status'', PyStr ''ignored''),
                          (''message'', PyStr ''Bot comment'')] 200)
     else if action = PyStr ''created'' then
       bind (lift (py_get issue ''number'' PyNone)) (\<lambda>number_value.
       bind (lift (py_get comment ''body'' (PyStr []))) (\<lambda>body_value.
       bind (lift (py_get repository ''full_name'' PyNone)) (\<lambda>repo_value.
       bind (lift (as_int number_value)) (\<lambda>number.
       bind (lift (as_str body_value)) (\<lambda>comment_body.
       bind (lift (as_str repo_value)) (\<lambda>repo.
       bind (handle_issue_comment E number comment_body repo) (\<lambda>state.
       (case state of
          Some st \<Rightarrow>
            ret (JSONResponse [(''status'', PyStr ''success''),
                               (''message'', PyStr ''Comment processed''),
                               (''conversation_status'', PyStr (status st))] 200)
        | None \<Rightarrow>
            ret (JSONResponse [(''status'', PyStr ''ignored''),
                               (''message'', PyStr ''No active conversation'')] 200)))))))))
     else ret (ignored_action action)))))))"

definition is_digit :: "char \<Rightarrow> bool" where
  "is_digit c = (48 \<le> (of_char c :: nat) \<and> (of_char c :: nat) \<le> 57)"

definition digits_value :: "string \<Rightarrow> int" where
  "digits_value ds = foldl (\<lambda>acc c. 10 * acc + (of_char c - 48)) 0 ds"

fun search_closes :: "string \<Rightarrow> int option" where
  "search_closes [] = None"
| "search_closes (c # cs) =
     (let ds = takeWhile is_digit (drop 8 (c # cs))
      in if (take 8 (c # cs) = ''Closes #'' \<or> take 8 (c # cs) = ''closes #'') \<and> ds \<noteq> []
         then Some (digits_value ds)
         else search_closes cs)"

text \<open>
  \<open>search_closes\<close> is \<open>re.search(r"[Cc]loses #(\d+)", pr_body)\<close> followed by
  \<open>int(match.group(1))\<close>: the leftmost match and its longest run of digits, with
  \<open>\d\<close> taken over the ASCII digits.
\<close>

definition handle_pull_request_event :: "env \<Rightarrow> pyval \<Rightarrow> json_response prog" where
  "handle_pull_request_event E payload =
     bind (lift (py_get payload ''action'' PyNone)) (\<lambda>action.
     bind (lift (py_get payload ''pull_request'' (PyDict []))) (\<lambda>pr.
     bind (lift (py_get payload ''repository'' (PyDict []))) (\<lambda>repository.
     bind (lift (py_get pr ''number'' PyNone)) (\<lambda>pr_num.
     bind (lift (py_get repository ''full_name'' PyNone)) (\<lambda>repo_value.
     bind (lift (py_get pr ''body'' (PyStr []))) (\<lambda>body_value.
     bind (lift (case body_value of PyStr s \<Rightarrow> Inr s
                 | _ \<Rightarrow> Inl (TypeError ''argument is not iterable''))) (\<lambda>pr_body.
     (let linked_issue =
            (if py_in ''Closes #'' pr_body \<or> py_in ''closes #'' pr_body
             then search_closes pr_body else None)
      in if action = PyStr ''opened'' then
           bind (lift (as_str repo_value)) (\<lambda>repo.
           bind (handle_pr_opened E linked_issue repo) (\<lambda>_.
           ret (JSONResponse [(''status'', PyStr ''success''),
                              (''message'', PyStr ''PR event processed'')] 200)))
         else ret (ignored_action action)))))))))"

definition github_webhook :: "env \<Rightarrow> request \<Rightarrow> json_response prog" where
  "github_webhook E req =
     try_except
       (bind (lift (verify_github_signature (raw_body req) (x_hub_signature_256 req)
                      (github_webhook_secret E))) (\<lambda>valid.
        if \<not> valid then raise (HTTPException 401 ''Invalid signature'')
        else
          bind (lift (json_loads E (raw_body req))) (\<lambda>payload.
          bind (create_agents E) (\<lambda>_.
          if x_github_event req = Some ''issues'' then handle_issues_event E payload
          else if x_github_event req = Some ''issue_comment''
          then handle_issue_comment_event E payload
          else if x_github_event req = Some ''pull_request''
          then handle_pull_request_event E payload
          else if x_github_event req = Some ''ping''
          then ret (JSONResponse [(''status'', PyStr ''success''),
                                  (''message'', PyStr ''Pong!'')] 200)
          else ret (JSONResponse
                      [(''status'', PyStr ''ignored''),
                       (''message'', PyStr (''Event type '' @ [CHR 0x27]
                                            @ fstr_opt (x_github_event req) @ [CHR 0x27]
                                            @ '' not handled''))] 200)))))
       (\<lambda>e. case e of
               HTTPException st detail \<Rightarrow> raise (HTTPException st detail)
             | _ \<Rightarrow> ret (JSONResponse [(''status'', PyStr ''error''),
                                       (''message'', PyStr (str_of_error e))] 500))"

text \<open>
  \<open>github_webhook\<close> reads the delivery identifier (\<open>X-GitHub-Delivery\<close>) only to log
  it. An \<open>HTTPException\<close> leaves the handler (FastAPI answers with its status code);
  any other exception becomes a response with status 500. \<open>create_agents\<close> builds the
  clients; building the GitHub client fetches the repository.
\<close>

section \<open>Observing a run\<close>

definition new_calls :: "'a prog \<Rightarrow> call list \<Rightarrow> call list" where
  "new_calls m h = drop (length h) (snd (m h))"

definition issues :: "(call \<Rightarrow> bool) \<Rightarrow> 'a prog \<Rightarrow> bool" where
  "issues P m = (\<forall>h. \<exists>cs. snd (m h) = h @ cs \<and> list_all P cs)"


fun is_llm_call :: "call \<Rightarrow> bool" where
  "is_llm_call (LlmInvoke a p) = True"
| "is_llm_call c = False"

fun is_db_write :: "call \<Rightarrow> bool" where
  "is_db_write (DbInsert t d) = True"
| "is_db_write (DbUpdate t d k v) = True"
| "is_db_write c = False"

fun is_comment_call :: "call \<Rightarrow> bool" where
  "is_comment_call (CreateComment n b) = True"
| "is_comment_call c = False"


fun is_create_pull :: "call \<Rightarrow> bool" where
  "is_create_pull (CreatePull t b hb bb) = True"
| "is_create_pull c = False"

fun is_file_call :: "call \<Rightarrow> bool" where
  "is_file_call (GetContents p r) = True"
| "is_file_call (UpdateFile p m c s b) = True"
| "is_file_call (CreateFile p m c b) = True"
| "is_file_call c = False"

fun inserts_into :: "string \<Rightarrow> call \<Rightarrow> bool" where
  "inserts_into table (DbInsert t d) = (t = table)"
| "inserts_into table c = False"

text \<open>
  \<open>new_calls m h\<close> are the calls a run of \<open>m\<close> adds to the calls \<open>h\<close> made before it.
  \<open>issues P m\<close> says that every run of \<open>m\<close> only adds calls, all of them in \<open>P\<close>.
  The other functions sort the calls by collaborator and by kind.
\<close>

fun comment_rounds :: "env \<Rightarrow> int \<Rightarrow> string \<Rightarrow> string \<Rightarrow> nat \<Rightarrow> call list \<Rightarrow> call list" where
  "comment_rounds E number text repo 0 h = h"
| "comment_rounds E number text repo (Suc n) h =
     comment_rounds E number text repo n (snd (handle_issue_comment E number text repo h))"



text \<open>A quiet call touches neither the labels of an issue nor the status of a conversation.\<close>

definition code_generation_row ::
  "pyval \<Rightarrow> int option \<Rightarrow> code_generation \<Rightarrow> string \<Rightarrow> pydict" where
  "code_generation_row conversation_id pr_num cg st =
     [(''conversation_id'', conversation_id), (''pr_number'', py_opt_int pr_num),
      (''files_changed'', PyJson (PyDict (files_changed_of cg))),
      (''tests_generated'', PyJson (PyDict (tests_generated_of cg))),
      (''status'', PyStr st)]"

text \<open>
  \<open>code_generation_row\<close> is the row \<open>create_code_generation\<close> inserts for a
  conversation, a pull request number (if any), the generated files and a status.
\<close>

subsection \<open>The steps of materialization, as the specification lists them\<close>

definition branch_step :: "env \<Rightarrow> call list \<Rightarrow> string \<Rightarrow> call list \<Rightarrow> bool" where
  "branch_step E h name cs =
     (case respond E h (GetGitRef (''heads/'' @ name)) of
        Failed e \<Rightarrow>
          (case e of
             GithubException st data \<Rightarrow>
               (case cs of
                  [check, base, create] \<Rightarrow>
                    check = GetGitRef (''heads/'' @ name) \<and> base = GetGitRef ''heads/main''
                    \<and> (case respond E (h @ [check]) base of
                          GitRef sha \<Rightarrow> create = CreateGitRef (''refs/heads/'' @ name) sha
                        | _ \<Rightarrow> False)
                | _ \<Rightarrow> False)
           | _ \<Rightarrow> False)
      | _ \<Rightarrow> cs = [GetGitRef (''heads/'' @ name)])"

definition file_step ::
  "env \<Rightarrow> call list \<Rightarrow> string \<Rightarrow> string \<times> string \<times> string \<Rightarrow> call list \<Rightarrow> bool" where
  "file_step E h branch spec cs =
     (case spec of (path, text, message) \<Rightarrow>
        (case respond E h (GetContents path branch) of
           ContentFile sha \<Rightarrow>
             cs = [GetContents path branch, UpdateFile path message text sha branch]
         | Failed e \<Rightarrow>
             (case e of
                GithubException st data \<Rightarrow>
                  st = 404
                  \<and> cs = [GetContents path branch, CreateFile path message text branch]
              | _ \<Rightarrow> False)
         | _ \<Rightarrow> False))"

definition create_after_update ::
  "env \<Rightarrow> call list \<Rightarrow> string \<Rightarrow> string \<times> string \<times> string \<Rightarrow> call list \<Rightarrow> bool" where
  "create_after_update E h branch spec cs =
     (case spec of (path, text, message) \<Rightarrow>
        (case respond E h (GetContents path branch) of
           ContentFile sha \<Rightarrow>
             (case respond E (h @ [GetContents path branch])
                     (UpdateFile path message text sha branch) of
                Failed e \<Rightarrow>
                  (case e of
                     GithubException st data \<Rightarrow>
                       st = 404
                       \<and> cs = [GetContents path branch,
                                 UpdateFile path message text sha branch,
                                 CreateFile path message text branch]
                   | _ \<Rightarrow> False)
              | _ \<Rightarrow> False)
         | _ \<Rightarrow> False))"

definition file_write ::
  "env \<Rightarrow> call list \<Rightarrow> string \<Rightarrow> string \<times> string \<times> string \<Rightarrow> call list \<Rightarrow> bool" where
  "file_write E h branch spec cs =
     (file_step E h branch spec cs \<or> create_after_update E h branch spec cs)"

fun file_writes ::
  "env \<Rightarrow> string \<Rightarrow> call list \<Rightarrow> (string \<times> string \<times> string) list \<Rightarrow> call list list \<Rightarrow> bool" where
  "file_writes E branch h [] segments = (segments = [])"
| "file_writes E branch h (spec # specs) segments =
     (case segments of
        [] \<Rightarrow> False
      | cs # rest \<Rightarrow> file_write E h branch spec cs \<and> file_writes E branch (h @ cs) specs rest)"

definition link_step :: "env \<Rightarrow> call list \<Rightarrow> int \<Rightarrow> int \<Rightarrow> call list \<Rightarrow> bool" where
  "link_step E h pr_num number cs =
     (case respond E h (GetPull pr_num) of
        Pull k body \<Rightarrow>
          (let current_body = (case body of None \<Rightarrow> [] | Some b \<Rightarrow> b);
               closes_text = ''Closes #'' @ str_int number
           in if py_in closes_text current_body then cs = [GetPull pr_num]
              else cs = [GetPull pr_num,
                         EditPull pr_num (current_body @ nl @ nl @ closes_text)])
      | _ \<Rightarrow> False)"

definition impl_specs :: "code_generation \<Rightarrow> (string \<times> string \<times> string) list" where
  "impl_specs cg = map (\<lambda>f. (file_path f, content f, ''Add '' @ file_path f)) (files_to_create cg)"

definition test_specs :: "code_generation \<Rightarrow> (string \<times> string \<times> string) list" where
  "test_specs cg =
     map (\<lambda>t. (test_file_path t, test_content t, ''Add tests: '' @ test_file_path t))
         (test_files cg)"

fun step_rank :: "call \<Rightarrow> nat" where
  "step_rank (GetGitRef r) = 0"
| "step_rank (CreateGitRef r sha) = 0"
| "step_rank (GetContents p r) = 1"
| "step_rank (UpdateFile p m c s b) = 1"
| "step_rank (CreateFile p m c b) = 1"
| "step_rank (CreatePull t b hb bb) = 2"
| "step_rank (GetPull k) = 3"
| "step_rank (EditPull k b) = 3"
| "step_rank c = 4"


text \<open>\<open>is_code_generation_write\<close> holds for a write to the table of code generation records.\<close>

subsection \<open>What is written after a failed materialization\<close>

definition failed_record :: "pyval \<Rightarrow> code_generation \<Rightarrow> call" where
  "failed_record conversation_id cg =
     DbInsert ''code_generations'' (code_generation_row conversation_id None cg ''failed'')"

definition failure_update :: "pyval \<Rightarrow> error \<Rightarrow> call" where
  "failure_update generation_id e =
     DbUpdate ''code_generations''
       [(''status'', PyStr ''failed''), (''error_message'', PyStr (str_of_error e))]
       ''id'' generation_id"

definition failed_result :: "code_generation \<Rightarrow> error \<Rightarrow> code_generation_result" where
  "failed_result cg e =
     \<lparr>generation = cg, pr_number = None, pr_url = None,
      result_status = ''failed'', error_message = Some (str_of_error e)\<rparr>"

definition store_accepts :: "env \<Rightarrow> call list \<Rightarrow> pyval \<Rightarrow> code_generation \<Rightarrow> error \<Rightarrow> bool" where
  "store_accepts E h conversation_id cg e =
     (case respond E h (failed_record conversation_id cg) of
        Rows rs \<Rightarrow>
          (case rs of
             [] \<Rightarrow> False
           | row # _ \<Rightarrow>
               (case map_of row ''id'' of
                  None \<Rightarrow> False
                | Some g \<Rightarrow>
                    (case respond E (h @ [failed_record conversation_id cg]) (failure_update g e) of
                       Rows us \<Rightarrow> us \<noteq> []
                     | _ \<Rightarrow> False)))
      | _ \<Rightarrow> False)"

text \<open>
  \<open>failed_record\<close> is the insertion of a code generation record in status \<open>failed\<close>
  with no pull request number, \<open>failure_update g e\<close> the update of the record \<open>g\<close> to
  status \<open>failed\<close> with the text of the exception \<open>e\<close>, and \<open>failed_result\<close> the
  result \<open>create_pull_request\<close> returns from its exception handler.
  \<open>store_accepts\<close> says that the store, asked after the calls \<open>h\<close>, answers the
  insertion with a row that has an \<open>id\<close> and the update of that row with at least one
  row.
\<close>
section \<open>Example environments\<close>

definition quiet_env :: env where
  "quiet_env =
     \<lparr>respond = (\<lambda>h c. Done),
      parse_issue_analysis = (\<lambda>text. Inl (OutputParserException text)),
      parse_code_generation = (\<lambda>text. Inl (OutputParserException text)),
      json_loads = (\<lambda>bs. Inl (JSONDecodeError ''Expecting value'')),
      github_webhook_secret = ''s3cret'',
      github_repo = ''acme/shop''\<rparr>"

text \<open>
  The environments of this section are the concrete worlds the statements below are
  evaluated in. \<open>quiet_env\<close> answers every call with an object that holds nothing, parses
  nothing, and is changed field by field into the others.
\<close>

definition conversation_row :: "string \<Rightarrow> pyval \<Rightarrow> pydict" where
  "conversation_row st analysis =
     [(''id'', PyStr ''c-42''), (''issue_id'', PyInt 1001), (''issue_number'', PyInt 42),
      (''repo_full_name'', PyStr ''acme/shop''), (''status'', PyStr st),
      (''turns'', PyList []), (''analysis'', analysis)]"

definition store_with :: "pydict list \<Rightarrow> call list \<Rightarrow> call \<Rightarrow> reply" where
  "store_with rows h c =
     (case c of
        DbSelect t f \<Rightarrow> Rows rows
      | DbInsert t d \<Rightarrow> Rows [(''id'', PyStr ''row-1'') # d]
      | DbUpdate t d k v \<Rightarrow> Rows [d]
      | LlmInvoke a p \<Rightarrow> Content ''{}''
      | _ \<Rightarrow> Done)"

definition undecided_analysis :: issue_analysis where
  "undecided_analysis =
     \<lparr>needs_clarification = False, questions = [], refined_description = None,
      is_complete = False, estimated_complexity = ''medium'', suggested_labels = [],
      acceptance_criteria = [], technical_considerations = [], dependencies = [],
      estimated_effort_hours = None\<rparr>"

definition clarifying_analysis :: issue_analysis where
  "clarifying_analysis =
     undecided_analysis\<lparr>needs_clarification := True,
                         questions := [''Which payment methods?'', ''Guest checkout?'']\<rparr>"

definition analysis_env :: "pydict list \<Rightarrow> issue_analysis \<Rightarrow> pyval \<Rightarrow> env" where
  "analysis_env rows a payload =
     quiet_env\<lparr>respond := store_with rows, parse_issue_analysis := (\<lambda>text. Inr a),
               json_loads := (\<lambda>bs. Inr payload)\<rparr>"

definition delivery :: "string \<Rightarrow> string \<Rightarrow> byte list \<Rightarrow> request" where
  "delivery event ident bs =
     \<lparr>x_github_event = Some event, x_hub_signature_256 = Some (sign ''s3cret'' bs),
      x_github_delivery = Some ident, raw_body = bs\<rparr>"

definition issue_42 :: pyval where
  "issue_42 = PyDict [(''number'', PyInt 42), (''id'', PyInt 1001),
                      (''title'', PyStr ''Add shopping cart''),
                      (''body'', PyStr ''Users need a cart'')]"

definition labeled_payload :: pyval where
  "labeled_payload =
     PyDict [(''action'', PyStr ''labeled''), (''issue'', issue_42),
             (''label'', PyDict [(''name'', PyStr ''ready-for-dev'')]),
             (''repository'', PyDict [(''full_name'', PyStr ''acme/shop'')])]"

definition comment_payload :: pyval where
  "comment_payload =
     PyDict [(''action'', PyStr ''created''), (''issue'', issue_42),
             (''comment'', PyDict [(''body'', PyStr ''Stripe and PayPal''),
                                   (''user'', PyDict [(''type'', PyStr ''User'')])]),
             (''repository'', PyDict [(''full_name'', PyStr ''acme/shop'')])]"





text \<open>
  \<open>ready_analysis\<close> is the complete analysis of scenario B of the specification, with
  the one suggested label \<open>feature\<close>; \<open>issue_42_state st a\<close> is the state a handler
  returns for issue 42 with status \<open>st\<close> and analysis \<open>a\<close>.
\<close>

definition cart_generation :: code_generation where
  "cart_generation =
     \<lparr>files_to_create =
        [\<lparr>file_path = ''src/cart.py'', content = ''class Cart: ...'', operation = ''create'',
          language = Some ''python'', description = ''The cart''\<rparr>,
         \<lparr>file_path = ''src/store.py'', content = ''class Store: ...'', operation = ''create'',
          language = Some ''python'', description = ''The session store''\<rparr>],
      test_files =
        [\<lparr>test_file_path = ''tests/test_cart.py'', test_content = ''def test_add(): ...'',
          test_framework = ''pytest'', test_count = 1, coverage_targets = [''Cart'']\<rparr>],
      commit_message = ''feat: add shopping cart'',
      pr_title = ''Add shopping cart'',
      pr_description = ''Adds the cart'',
      branch_name = ''feature/cart'',
      new_dependencies = [], environment_variables = [], migration_steps = [],
      breaking_changes = [], estimated_test_time_seconds = None\<rparr>"

definition repository_with :: "string list \<Rightarrow> string list \<Rightarrow> call list \<Rightarrow> call \<Rightarrow> reply" where
  "repository_with existing broken h c =
     (case c of
        GetGitRef r \<Rightarrow> if r = ''heads/main'' then GitRef ''sha-main''
                       else Failed (GithubException 404 ''Not Found'')
      | GetContents p r \<Rightarrow> if p \<in> set existing then ContentFile (''sha-of-'' @ p)
                            else Failed (GithubException 404 ''Not Found'')
      | UpdateFile p m t s b \<Rightarrow> if p \<in> set broken
                                 then Failed (GithubException 500 ''Server Error'') else Done
      | CreateFile p m t b \<Rightarrow> if p \<in> set broken
                               then Failed (GithubException 500 ''Server Error'') else Done
      | CreatePull t b hb bb \<Rightarrow> Pull 101 (Some b)
      | GetPull k \<Rightarrow> Pull k (Some ''Adds the cart'')
      | _ \<Rightarrow> store_with [] h c)"

definition dev_env :: "string list \<Rightarrow> string list \<Rightarrow> env" where
  "dev_env existing broken = quiet_env\<lparr>respond := repository_with existing broken\<rparr>"

text \<open>
  \<open>cart_generation\<close> is a generation of two implementation files and one test file on
  the branch \<open>feature/cart\<close>. \<open>repository_with existing broken\<close> is a repository that
  has the branch \<open>main\<close> and the files \<open>existing\<close>, answers 500 to a write of a file in
  \<open>broken\<close>, and numbers the pull request 101; the store accepts every write.
\<close>

definition vanishing_repository :: "call list \<Rightarrow> call \<Rightarrow> reply" where
  "vanishing_repository h c =
     (case c of
        UpdateFile p m t s b \<Rightarrow> Failed (GithubException 404 ''Not Found'')
      | _ \<Rightarrow> repository_with [''src/cart.py''] [] h c)"

definition vanishing_env :: env where
  "vanishing_env = quiet_env\<lparr>respond := vanishing_repository\<rparr>"

text \<open>
  \<open>vanishing_repository\<close> has the file \<open>src/cart.py\<close> when it is read, and answers
  404 to every update of a file.
\<close>

definition silent_repository :: "call list \<Rightarrow> call \<Rightarrow> reply" where
  "silent_repository h c =
     (case c of
        CreateFile p m t b \<Rightarrow> if p = ''src/store.py'' then Failed (PyException []) else Done
      | _ \<Rightarrow> repository_with [] [] h c)"

definition silent_env :: env where
  "silent_env = quiet_env\<lparr>respond := silent_repository\<rparr>"

definition folder_repository :: "call list \<Rightarrow> call \<Rightarrow> reply" where
  "folder_repository h c =
     (case c of
        GetContents p r \<Rightarrow> if p = ''src/store.py'' then Listing
                            else Failed (GithubException 404 ''Not Found'')
      | _ \<Rightarrow> repository_with [] [] h c)"

definition folder_env :: env where
  "folder_env = quiet_env\<lparr>respond := folder_repository\<rparr>"

text \<open>
  In \<open>silent_repository\<close> the creation of \<open>src/store.py\<close> raises an exception whose
  text is empty, as \<open>str(Exception())\<close> is. In \<open>folder_repository\<close> the path
  \<open>src/store.py\<close> is a directory, so that reading it answers a listing, which has no
  \<open>sha\<close>.
\<close>
section \<open>Reasoning about runs\<close>

text \<open>
  Sequencing laws, the inversion of a run of \<open>bind\<close>, and the rules that derive
  \<open>issues P m\<close> from the structure of \<open>m\<close>.
\<close>

lemma bind_ret: "bind (ret x) f = f x"
  by (rule ext) (simp add: bind_def ret_def)

lemma bind_raise: "bind (raise e) f = raise e"
  by (rule ext) (simp add: bind_def raise_def)

lemma bind_lift_Inr: "bind (lift (Inr x)) f = f x"
  by (rule ext) (simp add: bind_def lift_def)

lemma bind_lift_Inl: "bind (lift (Inl e)) f = raise e"
  by (rule ext) (simp add: bind_def lift_def raise_def)

lemma bind_Inr_iff:
  "bind m f h = (Inr y, h') \<longleftrightarrow> (\<exists>x h1. m h = (Inr x, h1) \<and> f x h1 = (Inr y, h'))"
  by (cases "m h") (auto simp: bind_def split: sum.splits)

lemma bind_Inl_iff:
  "bind m f h = (Inl e, h') \<longleftrightarrow>
     m h = (Inl e, h') \<or> (\<exists>x h1. m h = (Inr x, h1) \<and> f x h1 = (Inl e, h'))"
  by (cases "m h") (auto simp: bind_def split: sum.splits)

named_theorems issues_intros

lemma issues_ret [issues_intros]: "issues P (ret x)"
  by (simp add: issues_def ret_def)

lemma issues_raise [issues_intros]: "issues P (raise e)"
  by (simp add: issues_def raise_def)

lemma issues_lift [issues_intros]: "issues P (lift r)"
  by (simp add: issues_def lift_def)

lemma issues_perform [issues_intros]: "P c \<Longrightarrow> issues P (perform E c)"
  by (auto simp: issues_def perform_def split: reply.splits)

lemma issues_bind [issues_intros]:
  assumes "issues P m" and "\<And>x. issues P (f x)"
  shows "issues P (bind m f)"
  unfolding issues_def
proof
  fix h
  from assms(1) obtain cs where m: "snd (m h) = h @ cs" "list_all P cs"
    unfolding issues_def by blast
  show "\<exists>cs. snd (bind m f h) = h @ cs \<and> list_all P cs"
  proof (cases "m h")
    case (Pair r h1)
    with m have h1: "h1 = h @ cs" by simp
    show ?thesis
    proof (cases r)
      case (Inl e)
      with Pair m show ?thesis by (auto simp: bind_def)
    next
      case (Inr x)
      from assms(2) [of x] obtain ds where "snd (f x h1) = h1 @ ds" "list_all P ds"
        unfolding issues_def by blast
      with Pair Inr h1 m show ?thesis by (auto simp: bind_def)
    qed
  qed
qed

lemma issues_try_except [issues_intros]:
  assumes "issues P m" and "\<And>e. issues P (handler e)"
  shows "issues P (try_except m handler)"
  unfolding issues_def
proof
  fix h
  from assms(1) obtain cs where m: "snd (m h) = h @ cs" "list_all P cs"
    unfolding issues_def by blast
  show "\<exists>cs. snd (try_except m handler h) = h @ cs \<and> list_all P cs"
  proof (cases "m h")
    case (Pair r h1)
    with m have h1: "h1 = h @ cs" by simp
    show ?thesis
    proof (cases r)
      case (Inr x)
      with Pair m show ?thesis by (auto simp: try_except_def)
    next
      case (Inl e)
      from assms(2) [of e] obtain ds where "snd (handler e h1) = h1 @ ds" "list_all P ds"
        unfolding issues_def by blast
      with Pair Inl h1 m show ?thesis by (auto simp: try_except_def)
    qed
  qed
qed

lemma issues_for_each [issues_intros]:
  "(\<And>x. issues P (body x)) \<Longrightarrow> issues P (for_each body xs)"
  by (induction xs) (auto intro: issues_intros)

lemma issues_retry_attempts [issues_intros]:
  "issues P m \<Longrightarrow> issues P (retry_attempts n m)"
  by (induction n) (auto intro!: issues_intros)

lemma issues_if [issues_intros]:
  "(c \<Longrightarrow> issues P a) \<Longrightarrow> (\<not> c \<Longrightarrow> issues P b) \<Longrightarrow> issues P (if c then a else b)"
  by simp

lemma issues_case_option [issues_intros]:
  "(x = None \<Longrightarrow> issues P a) \<Longrightarrow> (\<And>y. x = Some y \<Longrightarrow> issues P (f y))
   \<Longrightarrow> issues P (case x of None \<Rightarrow> a | Some y \<Rightarrow> f y)"
  by (cases x) simp_all

lemma issues_case_prod [issues_intros]:
  "(\<And>a b. issues P (f a b)) \<Longrightarrow> issues P (case p of (a, b) \<Rightarrow> f a b)"
  by (cases p) simp

lemma issues_case_list [issues_intros]:
  "(xs = [] \<Longrightarrow> issues P a) \<Longrightarrow> (\<And>y ys. xs = y # ys \<Longrightarrow> issues P (f y ys))
   \<Longrightarrow> issues P (case xs of [] \<Rightarrow> a | y # ys \<Rightarrow> f y ys)"
  by (cases xs) simp_all

lemma issues_expect_pull [issues_intros]: "issues P (expect_pull r)"
  by (cases r) (simp_all add: expect_pull_def issues_intros)

lemma issues_expect_ref_sha [issues_intros]: "issues P (expect_ref_sha r)"
  by (cases r) (simp_all add: expect_ref_sha_def issues_intros)

lemma issues_expect_file_sha [issues_intros]: "issues P (expect_file_sha r)"
  by (cases r) (simp_all add: expect_file_sha_def issues_intros)

lemma issues_expect_content [issues_intros]: "issues P (expect_content r)"
  by (cases r) (simp_all add: expect_content_def issues_intros)

lemma issues_reraise_unless_github [issues_intros]:
  "(\<And>st data. issues P (handler st data)) \<Longrightarrow> issues P (reraise_unless_github handler e)"
  by (cases e) (simp_all add: reraise_unless_github_def issues_intros)

lemma issues_first_id [issues_intros]: "issues P (first_id rows message)"
  by (cases rows) (simp_all add: first_id_def issues_intros)

lemma issues_mono: "issues P m \<Longrightarrow> (\<And>c. P c \<Longrightarrow> Q c) \<Longrightarrow> issues Q m"
  unfolding issues_def list_all_iff by blast

lemma issues_run:
  assumes "issues P m" and "m h = (r, h')"
  shows "\<exists>cs. h' = h @ cs \<and> list_all P cs"
  using assms unfolding issues_def by (metis snd_conv)

lemma issues_new_calls: "issues P m \<Longrightarrow> list_all P (new_calls m h)"
  unfolding issues_def new_calls_def by (metis append_eq_conv_conj)

lemma run_extends: "issues P m \<Longrightarrow> snd (m h) = h @ new_calls m h"
  unfolding issues_def new_calls_def by (metis append_eq_conv_conj)

lemmas prog_defs = ret_def raise_def bind_def try_except_def lift_def perform_def

lemmas github_api_defs = github_client_init_def create_issue_comment_def add_labels_to_issue_def
  remove_labels_from_issue_def vcs_create_pull_request_def link_issue_to_pr_def create_branch_def
  branch_exists_def create_or_update_file_def

lemmas supabase_defs = create_conversation_def get_conversation_def update_conversation_status_def
  update_conversation_analysis_def log_agent_action_def create_code_generation_def
  update_code_generation_status_def response_data_def first_id_def

lemmas agent_defs = invoke_llm_def invoke_with_retry_def log_action_def update_conversation_state_def
  get_or_create_conversation_def analyze_issue_def ask_clarifying_questions_def
  mark_ready_for_development_def process_user_response_def handle_issue_workflow_def
  generate_code_def

lemma retry_attempts_3:
  "retry_attempts 3 m =
     try_except m (\<lambda>e. try_except m (\<lambda>e. try_except m (\<lambda>e. raise (RetryError e))))"
  by (simp add: numeral_3_eq_3)

lemmas eval_defs = retry_attempts_3 prog_defs github_api_defs supabase_defs agent_defs expect_content_def
  expect_pull_def expect_ref_sha_def expect_file_sha_def reraise_unless_github_def
  py_get_def py_item_def as_int_def as_str_def

lemmas example_defs = analysis_env_def quiet_env_def store_with_def conversation_row_def
  undecided_analysis_def clarifying_analysis_def delivery_def issue_42_def labeled_payload_def
  comment_payload_def

lemma analysis_model_dump_nonempty: "analysis_model_dump a \<noteq> []"
  by (simp add: analysis_model_dump_def)


lemma new_calls_bind_Inr:
  assumes "m h = (Inr x, h @ cs)" and "list_all P cs" and "issues P (f x)"
  shows "list_all P (new_calls (bind m f) h)"
proof -
  from assms(3) obtain ds where "snd (f x (h @ cs)) = (h @ cs) @ ds" "list_all P ds"
    unfolding issues_def by blast
  with assms(1,2) show ?thesis by (simp add: new_calls_def bind_def)
qed

lemma new_calls_bind_Inl:
  assumes "m h = (Inl e, h @ cs)" and "list_all P cs"
  shows "list_all P (new_calls (bind m f) h)"
  using assms by (simp add: new_calls_def bind_def)

lemma extends_run: "issues (\<lambda>c. True) m \<Longrightarrow> \<exists>cs. snd (m h) = h @ cs"
  unfolding issues_def by blast

lemma first_call_bind:
  assumes "\<exists>cs. snd (m h) = h @ c # cs" and "\<And>x. issues (\<lambda>c. True) (f x)"
  shows "\<exists>cs. snd (bind m f h) = h @ c # cs"
proof -
  from assms(1) obtain cs where m: "snd (m h) = h @ c # cs" by blast
  show ?thesis
  proof (cases "m h")
    case (Pair r h1)
    with m have h1: "h1 = h @ c # cs" by simp
    show ?thesis
    proof (cases r)
      case (Inl e)
      with Pair h1 show ?thesis by (simp add: bind_def)
    next
      case (Inr x)
      from assms(2) [of x] obtain ds where "snd (f x h1) = h1 @ ds"
        unfolding issues_def by blast
      with Pair Inr h1 show ?thesis by (simp add: bind_def)
    qed
  qed
qed

lemma first_call_try_except:
  assumes "\<exists>cs. snd (m h) = h @ c # cs" and "\<And>e. issues (\<lambda>c. True) (handler e)"
  shows "\<exists>cs. snd (try_except m handler h) = h @ c # cs"
proof -
  from assms(1) obtain cs where m: "snd (m h) = h @ c # cs" by blast
  show ?thesis
  proof (cases "m h")
    case (Pair r h1)
    with m have h1: "h1 = h @ c # cs" by simp
    show ?thesis
    proof (cases r)
      case (Inr x)
      with Pair h1 show ?thesis by (simp add: try_except_def)
    next
      case (Inl e)
      from assms(2) [of e] obtain ds where "snd (handler e h1) = h1 @ ds"
        unfolding issues_def by blast
      with Pair Inl h1 show ?thesis by (simp add: try_except_def)
    qed
  qed
qed

lemma first_call_perform: "\<exists>cs. snd (perform E c h) = h @ c # cs"
  by (simp add: perform_def split: reply.splits)



lemma ret_iff: "ret x h = (r, h') \<longleftrightarrow> r = Inr x \<and> h' = h"
  by (auto simp: ret_def)




lemma try_except_Inl_iff:
  "try_except m handler h = (Inl e', h') \<longleftrightarrow>
     (\<exists>e h1. m h = (Inl e, h1) \<and> handler e h1 = (Inl e', h'))"
  by (cases "m h") (auto simp: try_except_def split: sum.splits)



section \<open>Runs of the developer agent\<close>

lemma bind_InlE:
  assumes "bind m f h = (Inl e, h')"
  obtains "m h = (Inl e, h')" | x h1 where "m h = (Inr x, h1)" and "f x h1 = (Inl e, h')"
  using assms unfolding bind_Inl_iff by blast

lemma str_int_42: "str_int 42 = ''42''"
  by (simp add: str_int_def str_nat.simps [of 42] str_nat.simps [of 4] char_of_def bit_Suc_0_iff)


lemma str_int_500: "str_int 500 = ''500''"
  by (simp add: str_int_def str_nat.simps [of 500] str_nat.simps [of 50] str_nat.simps [of 5]
      char_of_def bit_Suc_0_iff)

lemmas dev_example_defs = dev_env_def repository_with_def quiet_env_def store_with_def

lemma cart_generation_fields:
  "files_to_create cart_generation =
        [\<lparr>file_path = ''src/cart.py'', content = ''class Cart: ...'', operation = ''create'',
          language = Some ''python'', description = ''The cart''\<rparr>,
         \<lparr>file_path = ''src/store.py'', content = ''class Store: ...'', operation = ''create'',
          language = Some ''python'', description = ''The session store''\<rparr>]"
  "test_files cart_generation =
        [\<lparr>test_file_path = ''tests/test_cart.py'', test_content = ''def test_add(): ...'',
          test_framework = ''pytest'', test_count = 1, coverage_targets = [''Cart'']\<rparr>]"
  "pr_title cart_generation = ''Add shopping cart''"
  "pr_description cart_generation = ''Adds the cart''"
  "branch_name cart_generation = ''feature/cart''"
  by (simp_all add: cart_generation_def)

lemma materialize_cart:
  "materialize (dev_env [''src/cart.py''] []) 42 cart_generation [] =
   (Inr 101,
    [GetGitRef ''heads/feature/cart'', GetGitRef ''heads/main'',
     CreateGitRef ''refs/heads/feature/cart'' ''sha-main'',
     GetContents ''src/cart.py'' ''feature/cart'',
     UpdateFile ''src/cart.py'' ''Add src/cart.py'' ''class Cart: ...''
       ''sha-of-src/cart.py'' ''feature/cart'',
     GetContents ''src/store.py'' ''feature/cart'',
     CreateFile ''src/store.py'' ''Add src/store.py'' ''class Store: ...'' ''feature/cart'',
     GetContents ''tests/test_cart.py'' ''feature/cart'',
     CreateFile ''tests/test_cart.py'' ''Add tests: tests/test_cart.py''
       ''def test_add(): ...'' ''feature/cart'',
     CreatePull ''Add shopping cart'' ''Adds the cart'' ''feature/cart'' ''main'',
     GetPull 101, EditPull 101 (''Adds the cart'' @ nl @ nl @ ''Closes #42'')])"
  by (simp add: materialize_def eval_defs dev_example_defs cart_generation_fields str_int_42 nl_def)

lemma materialize_cart_broken:
  "materialize (dev_env [] [''src/store.py'']) 42 cart_generation [] =
   (Inl (GithubException 500 ''Server Error''),
    [GetGitRef ''heads/feature/cart'', GetGitRef ''heads/main'',
     CreateGitRef ''refs/heads/feature/cart'' ''sha-main'',
     GetContents ''src/cart.py'' ''feature/cart'',
     CreateFile ''src/cart.py'' ''Add src/cart.py'' ''class Cart: ...'' ''feature/cart'',
     GetContents ''src/store.py'' ''feature/cart'',
     CreateFile ''src/store.py'' ''Add src/store.py'' ''class Store: ...'' ''feature/cart''])"
  by (simp add: materialize_def eval_defs dev_example_defs cart_generation_fields str_int_42 nl_def)



lemma create_code_generation_ok:
  assumes "respond E h (DbInsert ''code_generations'' (code_generation_row cid pr cg st))
           = Rows (row # rows)"
    and "map_of row ''id'' = Some g"
  shows "create_code_generation E cid pr (files_changed_of cg) (tests_generated_of cg) st h
         = (Inr g, h @ [DbInsert ''code_generations'' (code_generation_row cid pr cg st)])"
  using assms
  by (simp add: create_code_generation_def code_generation_row_def prog_defs first_id_def
      response_data_def py_item_def)


lemma update_code_generation_status_ok:
  assumes "respond E h (DbUpdate ''code_generations''
             [(''status'', PyStr st), (''error_message'', PyStr m)] ''id'' g) = Rows (row # rows)"
  shows "update_code_generation_status E g st None (Some m) h
         = (Inr (), h @ [DbUpdate ''code_generations''
                           [(''status'', PyStr st), (''error_message'', PyStr m)] ''id'' g])"
  using assms by (simp add: update_code_generation_status_def prog_defs response_data_def)




lemma create_pull_request_cart_broken:
  "create_pull_request (dev_env [] [''src/store.py'']) (PyStr ''c-42'') 42 cart_generation [] =
   (Inr \<lparr>generation = cart_generation, pr_number = None, pr_url = None,
         result_status = ''failed'', error_message = Some ''500 Server Error''\<rparr>,
    snd (materialize (dev_env [] [''src/store.py'']) 42 cart_generation [])
    @ [DbInsert ''code_generations''
         (code_generation_row (PyStr ''c-42'') None cart_generation ''failed''),
       DbUpdate ''code_generations''
         [(''status'', PyStr ''failed''), (''error_message'', PyStr ''500 Server Error'')]
         ''id'' (PyStr ''row-1'')])"
proof -
  let ?E = "dev_env [] [''src/store.py'']"
  have body: "bind (materialize ?E 42 cart_generation) f []
              = (Inl (GithubException 500 ''Server Error''),
                 snd (materialize ?E 42 cart_generation []))"
    for f :: "int \<Rightarrow> code_generation_result prog"
    by (simp add: bind_def materialize_cart_broken)
  show ?thesis
    unfolding create_pull_request_def try_except_def body materialize_cart_broken snd_conv
    by (simp add: bind_def ret_def create_code_generation_def
        update_code_generation_status_def raise_def
        perform_def first_id_def response_data_def lift_def py_item_def
        dev_example_defs code_generation_row_def str_of_error_def str_int_500)
qed

lemma vcs_create_pull_request_run:
  "vcs_create_pull_request E t b hb bb h = (r, h') \<Longrightarrow> h' = h @ [CreatePull t b hb bb]"
  by (cases "respond E h (CreatePull t b hb bb)")
     (auto simp: vcs_create_pull_request_def bind_def perform_def expect_pull_def raise_def ret_def)

lemma perform_run: "perform E c h = (r, h') \<Longrightarrow> h' = h @ [c]"
  by (auto simp: perform_def split: reply.splits)

lemma expect_pull_run: "expect_pull rep h = (r, h') \<Longrightarrow> h' = h"
  by (auto simp: expect_pull_def ret_def raise_def split: reply.splits)

lemma link_issue_to_pr_run:
  assumes "link_issue_to_pr E p n h = (r, h')"
  shows "h' = h @ [GetPull p] \<or> (\<exists>b. h' = h @ [GetPull p, EditPull p b])"
proof -
  obtain r1 h1 where 1: "perform E (GetPull p) h = (r1, h1)"
    by (cases "perform E (GetPull p) h")
  note h1 = perform_run [OF 1]
  show ?thesis
  proof (cases r1)
    case (Inl e)
    with 1 assms h1 show ?thesis by (simp add: link_issue_to_pr_def bind_def)
  next
    case rep: (Inr rep)
    obtain r2 h2 where 2: "expect_pull rep h1 = (r2, h2)" by (cases "expect_pull rep h1")
    note h2 = expect_pull_run [OF 2]
    show ?thesis
    proof (cases r2)
      case (Inl e)
      with 1 2 rep assms h1 h2 show ?thesis by (simp add: link_issue_to_pr_def bind_def)
    next
      case (Inr kb)
      obtain k body where kb: "kb = (k, body)" by (cases kb)
      let ?current = "case body of None \<Rightarrow> [] | Some b \<Rightarrow> b"
      show ?thesis
      proof (cases "py_in (''Closes #'' @ str_int n) ?current")
        case True
        with 1 2 rep Inr kb assms h1 h2 show ?thesis
          by (simp add: link_issue_to_pr_def bind_def ret_def)
      next
        case False
        obtain r3 h3 where
          3: "perform E (EditPull p (?current @ nl @ nl @ ''Closes #'' @ str_int n)) h1 = (r3, h3)"
          by (cases "perform E (EditPull p (?current @ nl @ nl @ ''Closes #'' @ str_int n)) h1")
        note h3 = perform_run [OF 3]
        from 1 2 3 rep Inr kb assms h2 False have "h' = h3"
          by (cases r3) (simp_all add: link_issue_to_pr_def bind_def ret_def)
        with h1 h3 show ?thesis by simp
      qed
    qed
  qed
qed

lemma materialize_stops_before_pull:
  assumes run: "materialize E n cg h = (Inl e, h1)" and last_call: "is_file_call (last h1)"
  shows "\<exists>cs. h1 = h @ cs \<and> list_all (\<lambda>c. \<not> is_create_pull c) cs"
proof -
  let ?Q = "\<lambda>c. \<not> is_create_pull c"
  let ?ext = "\<lambda>a b. \<exists>cs. b = a @ cs \<and> list_all ?Q cs"
  have trans: "?ext a c" if "?ext a b" and "?ext b c" for a b c
    using that by auto
  have A: "issues ?Q (branch_exists E (branch_name cg))"
    unfolding github_api_defs by (intro issues_intros) simp_all
  have B: "issues ?Q (if \<not> ex then create_branch E (branch_name cg) ''main'' else ret ())" for ex
    unfolding github_api_defs by (intro issues_intros) simp_all
  have C: "issues ?Q (for_each (\<lambda>file_change.
             create_or_update_file E (file_path file_change) (content file_change)
               (''Add '' @ file_path file_change) (branch_name cg)) xs)" for xs
    unfolding github_api_defs by (intro issues_intros) simp_all
  have D: "issues ?Q (for_each (\<lambda>test_file.
             create_or_update_file E (test_file_path test_file) (test_content test_file)
               (''Add tests: '' @ test_file_path test_file) (branch_name cg)) xs)" for xs
    unfolding github_api_defs by (intro issues_intros) simp_all
  from run show ?thesis
    unfolding materialize_def
  proof (elim bind_InlE)
    assume "branch_exists E (branch_name cg) h = (Inl e, h1)"
    from issues_run [OF A this] show ?thesis .
  next
    fix ex ha
    assume 1: "branch_exists E (branch_name cg) h = (Inr ex, ha)"
      and 2: "(if \<not> ex then create_branch E (branch_name cg) ''main'' else ret ()) ha = (Inl e, h1)"
    from trans [OF issues_run [OF A 1] issues_run [OF B 2]] show ?thesis .
  next
    fix ex ha and u :: unit and hb
    assume 1: "branch_exists E (branch_name cg) h = (Inr ex, ha)"
      and 2: "(if \<not> ex then create_branch E (branch_name cg) ''main'' else ret ()) ha = (Inr u, hb)"
      and 3: "for_each (\<lambda>file_change.
             create_or_update_file E (file_path file_change) (content file_change)
               (''Add '' @ file_path file_change) (branch_name cg)) (files_to_create cg) hb
              = (Inl e, h1)"
    from trans [OF trans [OF issues_run [OF A 1] issues_run [OF B 2]] issues_run [OF C 3]]
    show ?thesis .
  next
    fix ex ha and u v :: unit and hb hc
    assume 1: "branch_exists E (branch_name cg) h = (Inr ex, ha)"
      and 2: "(if \<not> ex then create_branch E (branch_name cg) ''main'' else ret ()) ha = (Inr u, hb)"
      and 3: "for_each (\<lambda>file_change.
             create_or_update_file E (file_path file_change) (content file_change)
               (''Add '' @ file_path file_change) (branch_name cg)) (files_to_create cg) hb
              = (Inr v, hc)"
      and 4: "for_each (\<lambda>test_file.
             create_or_update_file E (test_file_path test_file) (test_content test_file)
               (''Add tests: '' @ test_file_path test_file) (branch_name cg)) (test_files cg) hc
              = (Inl e, h1)"
    from trans [OF trans [OF trans [OF issues_run [OF A 1] issues_run [OF B 2]]
          issues_run [OF C 3]] issues_run [OF D 4]]
    show ?thesis .
  next
    fix hd
    assume "vcs_create_pull_request E (pr_title cg) (pr_description cg) (branch_name cg) ''main'' hd
            = (Inl e, h1)"
    from vcs_create_pull_request_run [OF this] last_call show ?thesis by simp
  next
    fix pr he
    assume "link_issue_to_pr E (fst pr) n he = (Inl e, h1)"
    from link_issue_to_pr_run [OF this] last_call show ?thesis by auto
  next
    fix pr hf
    assume "ret (fst pr) hf = (Inl e, h1)"
    then show ?thesis by (simp add: ret_def)
  qed
qed

lemma create_code_generation_cases:
  "create_code_generation E cid pr (files_changed_of cg) (tests_generated_of cg) st h
   = (case respond E h (DbInsert ''code_generations'' (code_generation_row cid pr cg st)) of
        Failed e \<Rightarrow> Inl e
      | Rows rs \<Rightarrow>
          (case rs of
             [] \<Rightarrow> Inl (PyException ''Failed to create code generation record'')
           | row # _ \<Rightarrow> (case map_of row ''id'' of None \<Rightarrow> Inl (KeyError ''id'')
                        | Some g \<Rightarrow> Inr g))
      | _ \<Rightarrow> Inl (PyException ''Failed to create code generation record''),
      h @ [DbInsert ''code_generations'' (code_generation_row cid pr cg st)])"
  by (cases "respond E h (DbInsert ''code_generations'' (code_generation_row cid pr cg st))")
     (auto simp: create_code_generation_def code_generation_row_def bind_def perform_def
           first_id_def response_data_def lift_def raise_def ret_def py_item_def
           split: list.splits option.splits)

lemma update_code_generation_status_cases:
  "update_code_generation_status E g ''failed'' None (Some (str_of_error e)) h
   = (case respond E h (failure_update g e) of
        Failed e' \<Rightarrow> Inl e'
      | Rows us \<Rightarrow> if us = []
                   then Inl (PyException ''Failed to update code generation status'')
                   else Inr ()
      | _ \<Rightarrow> Inl (PyException ''Failed to update code generation status''),
      h @ [failure_update g e])"
  by (cases "respond E h (failure_update g e)")
     (auto simp: update_code_generation_status_def failure_update_def bind_def perform_def
           response_data_def raise_def ret_def)

lemma create_pull_request_failure:
  assumes "materialize E n cg h = (Inl e, h1)"
  shows "create_pull_request E cid n cg h =
     (case respond E h1 (failed_record cid cg) of
        Failed e' \<Rightarrow> (Inl e', h1 @ [failed_record cid cg])
      | Rows rs \<Rightarrow>
          (case rs of
             [] \<Rightarrow> (Inl (PyException ''Failed to create code generation record''),
                    h1 @ [failed_record cid cg])
           | row # _ \<Rightarrow>
               (case map_of row ''id'' of
                  None \<Rightarrow> (Inl (KeyError ''id''), h1 @ [failed_record cid cg])
                | Some g \<Rightarrow>
                    (case respond E (h1 @ [failed_record cid cg]) (failure_update g e) of
                       Failed e' \<Rightarrow> Inl e'
                     | Rows us \<Rightarrow>
                         if us = []
                         then Inl (PyException ''Failed to update code generation status'')
                         else Inr (failed_result cg e)
                     | _ \<Rightarrow> Inl (PyException ''Failed to update code generation status''),
                     h1 @ [failed_record cid cg, failure_update g e])))
      | _ \<Rightarrow> (Inl (PyException ''Failed to create code generation record''),
               h1 @ [failed_record cid cg]))"
proof -
  from assms have body: "bind (materialize E n cg) f h = (Inl e, h1)"
    for f :: "int \<Rightarrow> code_generation_result prog"
    by (simp add: bind_def)
  show ?thesis
    unfolding create_pull_request_def try_except_def body
    by (simp add: bind_def [of "create_code_generation _ _ _ _ _ _"]
          bind_def [of "update_code_generation_status _ _ _ _ _"]
          create_code_generation_cases update_code_generation_status_cases
          failed_record_def [symmetric] failed_result_def ret_def
        split: reply.splits list.splits option.splits)
qed

lemma str_of_github_error: "str_of_error (GithubException st d) \<noteq> []"
proof -
  have "str_int st \<noteq> []"
    by (simp add: str_int_def str_nat.simps [of "nat st"] str_nat.simps [of "nat (- st)"])
  then show ?thesis by (simp add: str_of_error_def)
qed

lemma expect_ref_sha_run: "expect_ref_sha rep h = (r, h') \<Longrightarrow> h' = h"
  by (auto simp: expect_ref_sha_def ret_def raise_def split: reply.splits)

lemma branch_exists_run:
  assumes "branch_exists E name h = (Inr ex, h')"
  shows "h' = h @ [GetGitRef (''heads/'' @ name)]
         \<and> (case respond E h (GetGitRef (''heads/'' @ name)) of
               Failed e \<Rightarrow> (case e of GithubException st d \<Rightarrow> \<not> ex | _ \<Rightarrow> False)
             | _ \<Rightarrow> ex)"
proof (cases "respond E h (GetGitRef (''heads/'' @ name))")
  case (Failed e)
  with assms show ?thesis
    by (cases e)
       (simp_all add: branch_exists_def try_except_def bind_def perform_def
          reraise_unless_github_def ret_def raise_def)
qed (use assms in \<open>simp_all add: branch_exists_def try_except_def bind_def perform_def ret_def\<close>)

lemma create_branch_run:
  assumes "create_branch E name ''main'' h = (Inr u, h')"
  shows "\<exists>sha. respond E (h) (GetGitRef ''heads/main'') = GitRef sha
               \<and> h' = h @ [GetGitRef ''heads/main'', CreateGitRef (''refs/heads/'' @ name) sha]"
proof -
  from assms obtain base h1 sha h2 created h3 where
    1: "perform E (GetGitRef ''heads/main'') h = (Inr base, h1)"
    and 2: "expect_ref_sha base h1 = (Inr sha, h2)"
    and 3: "perform E (CreateGitRef (''refs/heads/'' @ name) sha) h2 = (Inr created, h3)"
    and 4: "h' = h3"
    unfolding create_branch_def bind_Inr_iff ret_iff by auto
  from 1 have base: "respond E h (GetGitRef ''heads/main'') = base"
    by (auto simp: perform_def split: reply.splits)
  from 2 have "base = GitRef sha"
    by (auto simp: expect_ref_sha_def ret_def raise_def split: reply.splits)
  with base perform_run [OF 1] expect_ref_sha_run [OF 2] perform_run [OF 3] 4
  show ?thesis by simp
qed

lemma branch_phase:
  assumes 1: "branch_exists E name h = (Inr ex, ha)"
    and 2: "(if \<not> ex then create_branch E name ''main'' else ret ()) ha = (Inr u, hb)"
  shows "\<exists>b. hb = h @ b \<and> branch_step E h name b"
proof (cases ex)
  case True
  with 2 have "hb = ha" by (simp add: ret_def)
  with branch_exists_run [OF 1] True show ?thesis
    by (auto simp: branch_step_def split: reply.splits error.splits)
next
  case False
  with 2 have "create_branch E name ''main'' ha = (Inr u, hb)" by simp
  from create_branch_run [OF this] obtain sha where
    sha: "respond E ha (GetGitRef ''heads/main'') = GitRef sha"
    and hb: "hb = ha @ [GetGitRef ''heads/main'', CreateGitRef (''refs/heads/'' @ name) sha]"
    by blast
  from branch_exists_run [OF 1] False sha hb show ?thesis
    by (auto simp: branch_step_def split: reply.splits error.splits)
qed

lemma create_or_update_file_run:
  assumes "create_or_update_file E p t m b h = (Inr u, h')"
  shows "\<exists>cs. h' = h @ cs \<and> file_write E h b (p, t, m) cs"
proof (cases "respond E h (GetContents p b)")
  case (ContentFile sha)
  show ?thesis
  proof (cases "respond E (h @ [GetContents p b]) (UpdateFile p m t sha b)")
    case (Failed e)
    show ?thesis
    proof (cases e)
      case (GithubException st d)
      with assms ContentFile Failed show ?thesis
        by (cases "respond E (h @ [GetContents p b, UpdateFile p m t sha b]) (CreateFile p m t b)")
           (auto simp: create_or_update_file_def try_except_def bind_def perform_def
              expect_file_sha_def reraise_unless_github_def ret_def raise_def
              file_write_def file_step_def create_after_update_def split: if_splits)
    qed (use assms ContentFile Failed in
          \<open>simp_all add: create_or_update_file_def try_except_def bind_def perform_def
             expect_file_sha_def reraise_unless_github_def ret_def raise_def\<close>)
  qed (use assms ContentFile in
        \<open>auto simp: create_or_update_file_def try_except_def bind_def perform_def
           expect_file_sha_def reraise_unless_github_def ret_def raise_def
           file_write_def file_step_def\<close>)
next
  case (Failed e)
  show ?thesis
  proof (cases e)
    case (GithubException st d)
    with assms Failed show ?thesis
      by (cases "respond E (h @ [GetContents p b]) (CreateFile p m t b)")
         (auto simp: create_or_update_file_def try_except_def bind_def perform_def
            expect_file_sha_def reraise_unless_github_def ret_def raise_def
            file_write_def file_step_def split: if_splits)
  qed (use assms Failed in
        \<open>simp_all add: create_or_update_file_def try_except_def bind_def perform_def
           expect_file_sha_def reraise_unless_github_def ret_def raise_def\<close>)
qed (use assms in
      \<open>simp_all add: create_or_update_file_def try_except_def bind_def perform_def
         expect_file_sha_def reraise_unless_github_def ret_def raise_def\<close>)

lemma for_each_file_writes:
  assumes "for_each (\<lambda>x. create_or_update_file E (pf x) (cf x) (mf x) b) xs h = (Inr u, h')"
  shows "\<exists>segments. h' = h @ concat segments
           \<and> file_writes E b h (map (\<lambda>x. (pf x, cf x, mf x)) xs) segments"
  using assms
proof (induction xs arbitrary: h)
  case Nil
  then show ?case by (simp add: ret_def)
next
  case (Cons x xs)
  from Cons.prems obtain v :: unit and h1 where
    1: "create_or_update_file E (pf x) (cf x) (mf x) b h = (Inr v, h1)"
    and 2: "for_each (\<lambda>x. create_or_update_file E (pf x) (cf x) (mf x) b) xs h1 = (Inr u, h')"
    unfolding for_each.simps bind_Inr_iff by blast
  from create_or_update_file_run [OF 1] obtain cs where
    cs: "h1 = h @ cs" "file_write E h b (pf x, cf x, mf x) cs" by blast
  from Cons.IH [OF 2] obtain segments where
    segs: "h' = h1 @ concat segments"
      "file_writes E b h1 (map (\<lambda>x. (pf x, cf x, mf x)) xs) segments" by blast
  from cs segs have "h' = h @ concat (cs # segments)
      \<and> file_writes E b h (map (\<lambda>x. (pf x, cf x, mf x)) (x # xs)) (cs # segments)"
    by simp
  then show ?case by blast
qed

lemma vcs_create_pull_request_ok:
  assumes "vcs_create_pull_request E t b hb bb h = (Inr pr, h')"
  shows "respond E h (CreatePull t b hb bb) = Pull (fst pr) (snd pr)"
  using assms
  by (cases "respond E h (CreatePull t b hb bb)")
     (auto simp: vcs_create_pull_request_def bind_def perform_def expect_pull_def raise_def ret_def)

lemma link_issue_to_pr_ok:
  assumes "link_issue_to_pr E p n h = (Inr u, h')"
  shows "\<exists>l. h' = h @ l \<and> link_step E h p n l"
proof -
  from assms obtain rep h1 kb h2 where
    1: "perform E (GetPull p) h = (Inr rep, h1)"
    and 2: "expect_pull rep h1 = (Inr kb, h2)"
    and 3: "(case kb of (k, body) \<Rightarrow>
              (let current_body = (case body of None \<Rightarrow> [] | Some b \<Rightarrow> b);
                   closes_text = ''Closes #'' @ str_int n
               in if \<not> py_in closes_text current_body
                  then bind (perform E (EditPull p (current_body @ nl @ nl @ closes_text)))
                            (\<lambda>_. ret ())
                  else ret ())) h2 = (Inr u, h')"
    unfolding link_issue_to_pr_def bind_Inr_iff by blast
  obtain k body where kb: "kb = (k, body)" by (cases kb)
  from 1 have rep: "respond E h (GetPull p) = rep"
    by (auto simp: perform_def split: reply.splits)
  from 2 kb have pull: "rep = Pull k body"
    by (auto simp: expect_pull_def ret_def raise_def split: reply.splits)
  note h1 = perform_run [OF 1] and h2 = expect_pull_run [OF 2]
  let ?current = "case body of None \<Rightarrow> [] | Some b \<Rightarrow> b"
  show ?thesis
  proof (cases "py_in (''Closes #'' @ str_int n) ?current")
    case True
    with 3 kb have "h' = h2" by (simp add: ret_def)
    with h1 h2 rep pull True show ?thesis by (simp add: link_step_def)
  next
    case False
    with 3 kb obtain edited h3 where
      4: "perform E (EditPull p (?current @ nl @ nl @ ''Closes #'' @ str_int n)) h2
          = (Inr edited, h3)" and "h' = h3"
      by (auto simp: bind_Inr_iff ret_iff)
    with perform_run [OF 4] h1 h2 rep pull False show ?thesis by (simp add: link_step_def)
  qed
qed

lemma rank_constant_sorted:
  "list_all (\<lambda>c. step_rank c = k) cs \<Longrightarrow> sorted (map step_rank cs)"
  by (induction cs) (auto simp: list_all_iff)

lemma ordered_ret:
  "\<exists>cs. snd (ret x h) = h @ cs \<and> sorted (map step_rank cs) \<and> list_all (\<lambda>c. k \<le> step_rank c) cs"
  by (simp add: ret_def)

lemma ordered_bind:
  assumes m: "issues (\<lambda>c. step_rank c = k) m"
    and f: "\<And>x h. \<exists>cs. snd (f x h) = h @ cs \<and> sorted (map step_rank cs)
                      \<and> list_all (\<lambda>c. k' \<le> step_rank c) cs"
    and k: "k \<le> k'"
  shows "\<exists>cs. snd (bind m f h) = h @ cs \<and> sorted (map step_rank cs)
              \<and> list_all (\<lambda>c. k \<le> step_rank c) cs"
proof -
  obtain r h1 where run: "m h = (r, h1)" by (cases "m h")
  from issues_run [OF m run] obtain as where
    as: "h1 = h @ as" "list_all (\<lambda>c. step_rank c = k) as" by blast
  show ?thesis
  proof (cases r)
    case (Inl e)
    with run as rank_constant_sorted [OF as(2)] show ?thesis
      by (auto simp: bind_def list_all_iff)
  next
    case (Inr x)
    from f [of x h1] obtain bs where
      bs: "snd (f x h1) = h1 @ bs" "sorted (map step_rank bs)"
        "list_all (\<lambda>c. k' \<le> step_rank c) bs" by blast
    from as(2) bs(2,3) k rank_constant_sorted [OF as(2)]
    have "sorted (map step_rank (as @ bs))" "list_all (\<lambda>c. k \<le> step_rank c) (as @ bs)"
      by (auto simp: sorted_append list_all_iff)
    with run Inr as(1) bs(1) show ?thesis
      by (auto simp: bind_def)
  qed
qed

lemma materialize_ordered:
  "\<exists>cs. snd (materialize E n cg h) = h @ cs \<and> sorted (map step_rank cs)
        \<and> list_all (\<lambda>c. 0 \<le> step_rank c) cs"
proof -
  have A: "issues (\<lambda>c. step_rank c = 0) (branch_exists E (branch_name cg))"
    unfolding github_api_defs by (intro issues_intros) simp_all
  have B: "issues (\<lambda>c. step_rank c = 0)
             (if \<not> ex then create_branch E (branch_name cg) ''main'' else ret ())" for ex
    unfolding github_api_defs by (intro issues_intros) simp_all
  have C: "issues (\<lambda>c. step_rank c = 1) (for_each (\<lambda>file_change.
             create_or_update_file E (file_path file_change) (content file_change)
               (''Add '' @ file_path file_change) (branch_name cg)) xs)" for xs
    unfolding github_api_defs by (intro issues_intros) simp_all
  have D: "issues (\<lambda>c. step_rank c = 1) (for_each (\<lambda>test_file.
             create_or_update_file E (test_file_path test_file) (test_content test_file)
               (''Add tests: '' @ test_file_path test_file) (branch_name cg)) xs)" for xs
    unfolding github_api_defs by (intro issues_intros) simp_all
  have V: "issues (\<lambda>c. step_rank c = 2)
             (vcs_create_pull_request E (pr_title cg) (pr_description cg) (branch_name cg) ''main'')"
    unfolding github_api_defs by (intro issues_intros) simp_all
  have L: "issues (\<lambda>c. step_rank c = 3) (link_issue_to_pr E p n)" for p
    unfolding github_api_defs Let_def by (intro issues_intros) simp_all
  show ?thesis
    unfolding materialize_def
    apply (rule ordered_bind [where k' = 0, OF A])
     apply (rule ordered_bind [where k' = 1, OF B])
      apply (rule ordered_bind [where k' = 1, OF C])
       apply (rule ordered_bind [where k' = 2, OF D])
        apply (rule ordered_bind [where k' = 3, OF V])
         apply (rule ordered_bind [where k' = 3, OF L])
          apply (rule ordered_ret)
         apply simp_all
    done
qed

section \<open>The signature verifier: claim C5\<close>

lemma hex_digit_code: "n < 16 \<Longrightarrow> (of_char (hex_digit n) :: nat) = (if n < 10 then 48 + n else 87 + n)"
  by (simp add: hex_digit_def)

lemma hex_digit_not_eq: "n < 16 \<Longrightarrow> hex_digit n \<noteq> CHR ''=''"
proof
  assume n: "n < 16" and e: "hex_digit n = CHR ''=''"
  have "(of_char (hex_digit n) :: nat) = 61" by (simp add: e)
  with hex_digit_code [OF n] show False by (simp split: if_splits)
qed

lemma hex_digit_ascii: "n < 16 \<Longrightarrow> (of_char (hex_digit n) :: nat) < 128"
  by (simp add: hex_digit_code)

lemma byte_div16: "unat (b :: byte) div 16 < 16"
proof -
  have "unat b < 2 ^ LENGTH(8)" by (rule unsigned_less)
  then show ?thesis by simp
qed

lemma hexdigest_no_eq: "CHR ''='' \<notin> set (hexdigest bs)"
proof -
  have "hex_digit (unat b div 16) \<noteq> CHR ''='' \<and> hex_digit (unat b mod 16) \<noteq> CHR ''=''" for b :: byte
    by (simp add: hex_digit_not_eq byte_div16)
  then show ?thesis by (fastforce simp: hexdigest_def)
qed

lemma hexdigest_ascii: "is_ascii (hexdigest bs)"
  by (induction bs) (simp_all add: hexdigest_def is_ascii_def hex_digit_ascii byte_div16)

lemma py_split_no_sep: "sep \<notin> set s \<Longrightarrow> py_split sep s = [s]"
  by (induction s) auto

lemma py_split_append: "sep \<notin> set p \<Longrightarrow> py_split sep (p @ sep # s) = p # py_split sep s"
  by (induction p) auto

lemma split_sign: "py_split CHR ''='' (''sha256='' @ hexdigest d) = [''sha256'', hexdigest d]"
  using py_split_append [of "CHR ''=''" "''sha256''" "hexdigest d"] py_split_no_sep [OF hexdigest_no_eq, of d]
  by simp

lemma verify_sign: "verify_github_signature body (Some (sign secret' body)) secret
   = Inr (hexdigest (hmac_new sha256 (encode secret) body) = hexdigest (hmac_new sha256 (encode secret') body))"
  unfolding verify_github_signature_def sign_def
  by (simp add: split_sign compare_digest_def hexdigest_ascii startswith_def del: append.simps)

lemma verify_own_signature: "verify_github_signature bs (Some (sign secret bs)) secret = Inr True"
  by (simp add: verify_sign)










section \<open>Redelivery: claim C1\<close>

lemma handle_new_issue_rest_no_conversation_insert:
  "issues (\<lambda>c. \<not> inserts_into ''conversations'' c)
     (bind (analyze_issue E number title body None) (\<lambda>analysis.
      bind (update_conversation_state E conversation_id
              (if needs_clarification analysis then ''needs_clarification'' else ''ready_for_dev'')
              (Some (analysis_model_dump analysis))) (\<lambda>_.
      bind (if needs_clarification analysis
            then ask_clarifying_questions E number (questions analysis)
            else if is_complete analysis
            then mark_ready_for_development E number
                   (py_or (refined_description analysis) body)
                   (acceptance_criteria analysis) (suggested_labels analysis)
            else ret ()) (\<lambda>_.
      ret \<lparr>issue_id = iid, issue_number = number, repo_full_name = repo,
           status = (if needs_clarification analysis then ''needs_clarification''
                     else ''ready_for_dev''),
           turns = [], current_analysis = Some analysis\<rparr>))))"
  unfolding agent_defs github_api_defs create_conversation_def get_conversation_def
    update_conversation_status_def update_conversation_analysis_def log_agent_action_def Let_def
  by (intro issues_intros) simp_all

lemma get_or_create_found:
  assumes "respond E h (DbSelect ''conversations''
             [(''issue_number'', PyInt number), (''repo_full_name'', PyStr repo)]) = Rows (row # rows)"
    and "row \<noteq> []"
  shows "get_or_create_conversation E number iid repo h
         = (py_item row ''id'', h @ [DbSelect ''conversations''
             [(''issue_number'', PyInt number), (''repo_full_name'', PyStr repo)]])"
  using assms
  by (simp add: get_or_create_conversation_def get_conversation_def response_data_def prog_defs)

text \<open>
  Claim C1, as the code has it. The delivery identifier is only logged: the gateway
  answers and acts the same whatever the identifier is, so a redelivered event is
  processed again in full. A redelivered issue-opened event still creates no second
  Conversation when the store returns the existing one: the handler looks the
  conversation up by issue number and repository and inserts none of its own.
\<close>

theorem delivery_identifier_not_consulted:
  "github_webhook E (req\<lparr>x_github_delivery := d\<rparr>) h = github_webhook E req h
   \<and> (respond E h (DbSelect ''conversations''
          [(''issue_number'', PyInt number), (''repo_full_name'', PyStr repo)]) = Rows (row # rows)
        \<and> row \<noteq> []
      \<longrightarrow> list_all (\<lambda>c. \<not> inserts_into ''conversations'' c)
            (new_calls (handle_new_issue E number iid title body repo) h))"
proof (intro conjI impI)
  show "github_webhook E (req\<lparr>x_github_delivery := d\<rparr>) h = github_webhook E req h"
    by (simp add: github_webhook_def cong: if_cong)
next
  assume a: "respond E h (DbSelect ''conversations''
          [(''issue_number'', PyInt number), (''repo_full_name'', PyStr repo)]) = Rows (row # rows)
        \<and> row \<noteq> []"
  let ?sel = "DbSelect ''conversations''
          [(''issue_number'', PyInt number), (''repo_full_name'', PyStr repo)]"
  from a have run: "get_or_create_conversation E number iid repo h = (py_item row ''id'', h @ [?sel])"
    by (simp add: get_or_create_found)
  show "list_all (\<lambda>c. \<not> inserts_into ''conversations'' c)
            (new_calls (handle_new_issue E number iid title body repo) h)"
  proof (cases "py_item row ''id''")
    case (Inl e)
    with run show ?thesis
      unfolding handle_new_issue_def handle_issue_workflow_def
      by (intro new_calls_bind_Inl [where cs = "[?sel]"]) simp_all
  next
    case (Inr cid)
    with run show ?thesis
      unfolding handle_new_issue_def handle_issue_workflow_def
      by (intro new_calls_bind_Inr [where cs = "[?sel]" and x = cid]
            handle_new_issue_rest_no_conversation_insert) simp_all
  qed
qed

text \<open>The theorem where the store already holds the conversation of issue 42.\<close>

theorem delivery_identifier_not_consulted_witness:
  "respond (analysis_env [conversation_row ''needs_clarification'' PyNone] clarifying_analysis PyNone) []
     (DbSelect ''conversations'' [(''issue_number'', PyInt 42), (''repo_full_name'', PyStr ''acme/shop'')])
     = Rows [conversation_row ''needs_clarification'' PyNone]
   \<and> conversation_row ''needs_clarification'' PyNone \<noteq> []
   \<and> list_all (\<lambda>c. \<not> inserts_into ''conversations'' c)
        (new_calls (handle_new_issue
           (analysis_env [conversation_row ''needs_clarification'' PyNone] clarifying_analysis PyNone)
           42 1001 ''Add shopping cart'' (Some ''Users need a cart'') ''acme/shop'') [])"
  using delivery_identifier_not_consulted
    [of "analysis_env [conversation_row ''needs_clarification'' PyNone] clarifying_analysis PyNone"
        _ _ "[]" 42 "''acme/shop''" "conversation_row ''needs_clarification'' PyNone" "[]"
        1001 "''Add shopping cart''" "Some ''Users need a cart''"]
  by (simp add: analysis_env_def store_with_def conversation_row_def)

lemma comment_delivery_round:
  "\<exists>cs. snd (github_webhook
             (analysis_env [conversation_row ''needs_clarification'' PyNone] clarifying_analysis
                comment_payload)
             (delivery ''issue_comment'' ''d-7'' bs) h) = h @ cs
        \<and> length (filter is_comment_call cs) = 1"
  by (simp add: github_webhook_def handle_issue_comment_event_def handle_issue_comment_def
      create_agents_def eval_defs example_defs verify_own_signature
      analysis_model_dump_nonempty)

text \<open>
  Claim C1 as stated fails: the same comment event, delivered twice with the delivery
  identifier \<open>d-7\<close> to a conversation that waits for clarification, posts two comments.
\<close>

theorem redelivery_posts_second_comment_counterexample:
  "length (filter is_comment_call
     (snd (github_webhook
             (analysis_env [conversation_row ''needs_clarification'' PyNone] clarifying_analysis
                comment_payload)
             (delivery ''issue_comment'' ''d-7'' (encode ''comment''))
             (snd (github_webhook
                (analysis_env [conversation_row ''needs_clarification'' PyNone] clarifying_analysis
                   comment_payload)
                (delivery ''issue_comment'' ''d-7'' (encode ''comment'')) []))))) = 2"
proof -
  let ?E = "analysis_env [conversation_row ''needs_clarification'' PyNone] clarifying_analysis
                comment_payload"
  let ?r = "delivery ''issue_comment'' ''d-7'' (encode ''comment'')"
  obtain cs where 1: "snd (github_webhook ?E ?r []) = [] @ cs" "length (filter is_comment_call cs) = 1"
    using comment_delivery_round by blast
  obtain ds where 2: "snd (github_webhook ?E ?r cs) = cs @ ds" "length (filter is_comment_call ds) = 1"
    using comment_delivery_round by blast
  from 1 2 show ?thesis by simp
qed

section \<open>The clarification loop: claim C3\<close>

lemma process_user_response_first_call:
  "\<exists>cs. snd (process_user_response E cid responses h)
          = h @ LlmInvoke po_name (FollowUpPrompt responses) # cs"
  unfolding process_user_response_def invoke_with_retry_def retry_attempts_3 invoke_llm_def
    log_action_def log_agent_action_def
  by (intro first_call_bind first_call_try_except first_call_perform issues_intros) simp_all

lemma comment_invokes_agent:
  assumes "respond E h (DbSelect ''conversations''
             [(''issue_number'', PyInt number), (''repo_full_name'', PyStr repo)]) = Rows (row # rows)"
    and "map_of row ''status'' = Some (PyStr ''needs_clarification'')"
    and "map_of row ''id'' = Some cid"
  shows "take 2 (new_calls (handle_issue_comment E number text repo) h)
         = [DbSelect ''conversations''
              [(''issue_number'', PyInt number), (''repo_full_name'', PyStr repo)],
            LlmInvoke po_name (FollowUpPrompt [text])]"
proof -
  let ?sel = "DbSelect ''conversations''
              [(''issue_number'', PyInt number), (''repo_full_name'', PyStr repo)]"
  let ?rest = "\<lambda>analysis.
              bind (update_conversation_state E cid
                      (if is_complete analysis then ''ready_for_dev''
                       else ''needs_clarification'')
                      (Some (analysis_model_dump analysis))) (\<lambda>_.
              bind (if needs_clarification analysis
                    then ask_clarifying_questions E number (questions analysis)
                    else if is_complete analysis
                    then mark_ready_for_development E number
                           (py_or (refined_description analysis) (Some []))
                           (acceptance_criteria analysis) (suggested_labels analysis)
                    else ret ()) (\<lambda>_.
              bind (lift (py_item row ''issue_id'')) (\<lambda>iid_value.
              bind (lift (case iid_value of PyInt i \<Rightarrow> Inr i
                          | _ \<Rightarrow> Inl (ValidationError ''issue_id''))) (\<lambda>iid.
              ret (Some \<lparr>issue_id = iid, issue_number = number, repo_full_name = repo,
                         status = (if is_complete analysis then ''ready_for_dev''
                                   else ''needs_clarification''),
                         turns = [], current_analysis = Some analysis\<rparr>)))))"
  from assms(2) have row: "row \<noteq> []" by auto
  have rest: "issues (\<lambda>c. True) (?rest a)" for a
    unfolding agent_defs github_api_defs create_conversation_def get_conversation_def
      update_conversation_status_def update_conversation_analysis_def log_agent_action_def Let_def
    by (intro issues_intros) simp_all
  have "handle_issue_comment E number text repo h
        = bind (process_user_response E cid [text]) ?rest (h @ [?sel])"
    using assms row
    by (simp add: handle_issue_comment_def get_conversation_def response_data_def py_item_def
        prog_defs)
  moreover have "\<exists>cs. snd (process_user_response E cid [text] (h @ [?sel]))
                     = (h @ [?sel]) @ LlmInvoke po_name (FollowUpPrompt [text]) # cs"
    by (rule process_user_response_first_call)
  then have "\<exists>cs. snd (bind (process_user_response E cid [text]) ?rest (h @ [?sel]))
                     = (h @ [?sel]) @ LlmInvoke po_name (FollowUpPrompt [text]) # cs"
    by (rule first_call_bind) (rule rest)
  ultimately show ?thesis by (auto simp: new_calls_def)
qed

text \<open>
  Claim C3, as the code has it. Whenever the store returns the conversation in status
  \<open>needs_clarification\<close>, a comment invokes the Requirements Agent right after the
  lookup, whatever calls were made before: no turn count is read and no outcome other
  than the agent's analysis exists.
\<close>

theorem clarification_loop_has_no_bound:
  assumes "respond E h (DbSelect ''conversations''
             [(''issue_number'', PyInt number), (''repo_full_name'', PyStr repo)]) = Rows (row # rows)"
    and "map_of row ''status'' = Some (PyStr ''needs_clarification'')"
    and "map_of row ''id'' = Some cid"
  shows "take 2 (new_calls (handle_issue_comment E number text repo) h)
         = [DbSelect ''conversations''
              [(''issue_number'', PyInt number), (''repo_full_name'', PyStr repo)],
            LlmInvoke po_name (FollowUpPrompt [text])]"
  using assms by (rule comment_invokes_agent)

text \<open>The theorem for a comment on issue 42 after three earlier rounds.\<close>

theorem clarification_loop_has_no_bound_witness:
  "take 2 (new_calls
     (handle_issue_comment
        (analysis_env [conversation_row ''needs_clarification'' PyNone] clarifying_analysis PyNone)
        42 ''Stripe and PayPal'' ''acme/shop'')
     (comment_rounds
        (analysis_env [conversation_row ''needs_clarification'' PyNone] clarifying_analysis PyNone)
        42 ''Stripe and PayPal'' ''acme/shop'' 3 []))
   = [DbSelect ''conversations''
        [(''issue_number'', PyInt 42), (''repo_full_name'', PyStr ''acme/shop'')],
      LlmInvoke po_name (FollowUpPrompt [''Stripe and PayPal''])]"
  by (rule clarification_loop_has_no_bound
        [where row = "conversation_row ''needs_clarification'' PyNone" and rows = "[]"
           and cid = "PyStr ''c-42''"])
     (simp_all add: analysis_env_def store_with_def conversation_row_def)

text \<open>
  Claim C3 as stated fails: when the agent keeps asking for clarification, the comment
  that follows any number \<open>n\<close> of rounds invokes the agent again.
\<close>

theorem clarification_loop_counterexample:
  "\<forall>n. list_ex is_llm_call
     (new_calls
        (handle_issue_comment
           (analysis_env [conversation_row ''needs_clarification'' PyNone] clarifying_analysis PyNone)
           42 ''Stripe and PayPal'' ''acme/shop'')
        (comment_rounds
           (analysis_env [conversation_row ''needs_clarification'' PyNone] clarifying_analysis PyNone)
           42 ''Stripe and PayPal'' ''acme/shop'' n []))"
proof
  fix n
  let ?E = "analysis_env [conversation_row ''needs_clarification'' PyNone] clarifying_analysis PyNone"
  let ?h = "comment_rounds ?E 42 ''Stripe and PayPal'' ''acme/shop'' n []"
  let ?new = "new_calls (handle_issue_comment ?E 42 ''Stripe and PayPal'' ''acme/shop'') ?h"
  have "take 2 ?new
        = [DbSelect ''conversations''
             [(''issue_number'', PyInt 42), (''repo_full_name'', PyStr ''acme/shop'')],
           LlmInvoke po_name (FollowUpPrompt [''Stripe and PayPal''])]"
    by (rule comment_invokes_agent
          [where row = "conversation_row ''needs_clarification'' PyNone" and rows = "[]"
             and cid = "PyStr ''c-42''"])
       (simp_all add: analysis_env_def store_with_def conversation_row_def)
  then have "list_ex is_llm_call (take 2 ?new)" by simp
  then show "list_ex is_llm_call ?new"
    unfolding list_ex_iff by (meson in_set_takeD)
qed

section \<open>The undecided analysis: claim C6\<close>

text \<open>
  Claim C6 at an analysis that neither asks for clarification nor is complete. For a new
  issue the handler persists and returns the status \<open>ready_for_dev\<close>; for a comment
  on a conversation that waits for clarification it persists and returns
  \<open>needs_clarification\<close>; \<open>ConversationState.update_analysis\<close> is the only place
  that says \<open>analyzing\<close>, and no handler calls it. In both runs no comment is posted and
  no label is touched.
\<close>

theorem undecided_analysis_is_not_persisted_as_analyzing:
  "handle_new_issue (analysis_env [] undecided_analysis PyNone)
      42 1001 ''Add shopping cart'' (Some ''Users need a cart'') ''acme/shop'' []
   = (Inr \<lparr>issue_id = 1001, issue_number = 42, repo_full_name = ''acme/shop'',
           status = ''ready_for_dev'', turns = [],
           current_analysis = Some undecided_analysis\<rparr>,
      [DbSelect ''conversations''
         [(''issue_number'', PyInt 42), (''repo_full_name'', PyStr ''acme/shop'')],
       DbInsert ''conversations''
         [(''issue_id'', PyInt 1001), (''issue_number'', PyInt 42),
          (''repo_full_name'', PyStr ''acme/shop''), (''status'', PyStr ''analyzing''),
          (''turns'', PyList [])],
       LlmInvoke ''ProductOwnerAgent''
         (AnalysisPrompt ''Add shopping cart'' (Some ''Users need a cart'') None),
       DbInsert ''agent_actions''
         [(''conversation_id'', PyNone), (''agent_type'', PyStr ''ProductOwnerAgent''),
          (''action_type'', PyStr ''issue_analyzed''),
          (''payload'', PyJson (PyDict
             [(''issue_number'', PyInt 42), (''needs_clarification'', PyBool False),
              (''question_count'', PyInt 0), (''estimated_complexity'', PyStr ''medium'')])),
          (''status'', PyStr ''success'')],
       DbUpdate ''conversations'' [(''status'', PyStr ''ready_for_dev'')] ''id'' (PyStr ''row-1''),
       DbUpdate ''conversations''
         [(''analysis'', PyJson (PyDict (analysis_model_dump undecided_analysis)))]
         ''id'' (PyStr ''row-1'')])
   \<and> handle_issue_comment
        (analysis_env [conversation_row ''needs_clarification'' PyNone] undecided_analysis PyNone)
        42 ''Stripe and PayPal'' ''acme/shop'' []
   = (Inr (Some \<lparr>issue_id = 1001, issue_number = 42, repo_full_name = ''acme/shop'',
                 status = ''needs_clarification'', turns = [],
                 current_analysis = Some undecided_analysis\<rparr>),
      [DbSelect ''conversations''
         [(''issue_number'', PyInt 42), (''repo_full_name'', PyStr ''acme/shop'')],
       LlmInvoke ''ProductOwnerAgent'' (FollowUpPrompt [''Stripe and PayPal'']),
       DbInsert ''agent_actions''
         [(''conversation_id'', PyStr ''c-42''), (''agent_type'', PyStr ''ProductOwnerAgent''),
          (''action_type'', PyStr ''user_response_processed''),
          (''payload'', PyJson (PyDict
             [(''conversation_id'', PyStr ''c-42''),
              (''still_needs_clarification'', PyBool False),
              (''is_complete'', PyBool False)])),
          (''status'', PyStr ''success'')],
       DbUpdate ''conversations'' [(''status'', PyStr ''needs_clarification'')]
         ''id'' (PyStr ''c-42''),
       DbUpdate ''conversations''
         [(''analysis'', PyJson (PyDict (analysis_model_dump undecided_analysis)))]
         ''id'' (PyStr ''c-42'')])
   \<and> status (update_analysis
         \<lparr>issue_id = 1001, issue_number = 42, repo_full_name = ''acme/shop'',
          status = ''analyzing'', turns = [], current_analysis = None\<rparr>
         undecided_analysis) = ''analyzing''"
proof -
  have u: "needs_clarification undecided_analysis = False" "is_complete undecided_analysis = False"
    "questions undecided_analysis = []" "estimated_complexity undecided_analysis = ''medium''"
    by (simp_all add: undecided_analysis_def)
  show ?thesis
    apply (intro conjI)
    subgoal
      by (simp add: handle_new_issue_def eval_defs analysis_env_def quiet_env_def store_with_def
          analysis_model_dump_nonempty u po_name_def)
    subgoal
      by (simp add: handle_issue_comment_def eval_defs analysis_env_def quiet_env_def store_with_def
          conversation_row_def analysis_model_dump_nonempty u po_name_def)
    subgoal
      by (simp add: update_analysis_def u)
    done
qed

section \<open>Ready for development: claim C7\<close>























section \<open>The code generation record: claim C4\<close>




section \<open>A failed file write: claim C9\<close>

text \<open>
  Claim C9, as the code has it. Let the branch, the files and the pull request of an
  attempt be made up to a call that reads or writes a file, and let the attempt stop
  there with an exception \<open>e\<close> of any kind, whatever was committed before. Then no call
  of the attempt opens a pull request. The next call inserts the record in status
  \<open>failed\<close>, and the only call after that, if there is one, updates that record to
  status \<open>failed\<close> with the text of \<open>e\<close>. The attempt returns a result exactly when
  the store accepts both writes; the result then has status \<open>failed\<close>, no pull request
  number and the text of \<open>e\<close> as its error message, and both writes were made. That
  text is not empty when \<open>e\<close> is an error answered by GitHub.
\<close>

theorem file_write_failure_is_recorded:
  assumes "materialize E n cg h = (Inl e, h1)"
    and "is_file_call (last h1)"
  shows "\<not> list_ex is_create_pull (new_calls (create_pull_request E cid n cg) h)
    \<and> (snd (create_pull_request E cid n cg h) = h1 @ [failed_record cid cg]
        \<or> (\<exists>g. snd (create_pull_request E cid n cg h)
                 = h1 @ [failed_record cid cg, failure_update g e]))
    \<and> ((\<exists>res. fst (create_pull_request E cid n cg h) = Inr res)
         \<longleftrightarrow> store_accepts E h1 cid cg e)
    \<and> (\<forall>res. fst (create_pull_request E cid n cg h) = Inr res \<longrightarrow>
          res = failed_result cg e
          \<and> (\<exists>g. snd (create_pull_request E cid n cg h)
                   = h1 @ [failed_record cid cg, failure_update g e]))
    \<and> (\<forall>st d. e = GithubException st d \<longrightarrow> str_of_error e \<noteq> [])"
proof -
  let ?run = "create_pull_request E cid n cg h"
  note run = create_pull_request_failure [OF assms(1), of cid]
  have trace: "snd ?run = h1 @ [failed_record cid cg]
        \<or> (\<exists>g. snd ?run = h1 @ [failed_record cid cg, failure_update g e])"
    unfolding run by (auto split: reply.splits list.splits option.splits)
  have returns: "(\<exists>res. fst ?run = Inr res) \<longleftrightarrow> store_accepts E h1 cid cg e"
    unfolding run store_accepts_def
    by (simp split: reply.splits list.splits option.splits)
  have result: "res = failed_result cg e
          \<and> (\<exists>g. snd ?run = h1 @ [failed_record cid cg, failure_update g e])"
    if "fst ?run = Inr res" for res
    using that unfolding run
    by (auto split: reply.splits list.splits option.splits if_splits)
  from materialize_stops_before_pull [OF assms]
  obtain cs where cs: "h1 = h @ cs" "list_all (\<lambda>c. \<not> is_create_pull c) cs" by blast
  from trace cs have no_pull: "\<not> list_ex is_create_pull (new_calls (create_pull_request E cid n cg) h)"
    by (auto simp: new_calls_def failed_record_def failure_update_def list_ex_iff list_all_iff)
  from no_pull trace returns result str_of_github_error show ?thesis by blast
qed

text \<open>
  Witness for claim C9: \<open>src/cart.py\<close> is committed, then the write of
  \<open>src/store.py\<close> is answered with status 500, and the store accepts both writes.
  In the second repository \<open>src/store.py\<close> is a directory, and the attempt stops
  with an \<open>AttributeError\<close> instead.
\<close>

theorem file_write_failure_is_recorded_witness:
  "fst (materialize (dev_env [] [''src/store.py'']) 42 cart_generation [])
   = Inl (GithubException 500 ''Server Error'')
   \<and> CreateFile ''src/cart.py'' ''Add src/cart.py'' ''class Cart: ...'' ''feature/cart''
       \<in> set (snd (materialize (dev_env [] [''src/store.py'']) 42 cart_generation []))
   \<and> last (snd (materialize (dev_env [] [''src/store.py'']) 42 cart_generation []))
       = CreateFile ''src/store.py'' ''Add src/store.py'' ''class Store: ...'' ''feature/cart''
   \<and> store_accepts (dev_env [] [''src/store.py''])
         (snd (materialize (dev_env [] [''src/store.py'']) 42 cart_generation []))
         (PyStr ''c-42'') cart_generation (GithubException 500 ''Server Error'')
   \<and> fst (create_pull_request (dev_env [] [''src/store.py'']) (PyStr ''c-42'') 42
            cart_generation [])
     = Inr (failed_result cart_generation (GithubException 500 ''Server Error''))
   \<and> snd (create_pull_request (dev_env [] [''src/store.py'']) (PyStr ''c-42'') 42
            cart_generation [])
     = snd (materialize (dev_env [] [''src/store.py'']) 42 cart_generation [])
       @ [failed_record (PyStr ''c-42'') cart_generation,
          failure_update (PyStr ''row-1'') (GithubException 500 ''Server Error'')]
   \<and> str_of_error (GithubException 500 ''Server Error'') = ''500 Server Error''
   \<and> \<not> list_ex is_create_pull
         (new_calls (create_pull_request (dev_env [] [''src/store.py'']) (PyStr ''c-42'') 42
                       cart_generation) [])
   \<and> materialize folder_env 42 cart_generation [] =
     (Inl (AttributeError ''object has no attribute sha''),
      [GetGitRef ''heads/feature/cart'', GetGitRef ''heads/main'',
       CreateGitRef ''refs/heads/feature/cart'' ''sha-main'',
       GetContents ''src/cart.py'' ''feature/cart'',
       CreateFile ''src/cart.py'' ''Add src/cart.py'' ''class Cart: ...'' ''feature/cart'',
       GetContents ''src/store.py'' ''feature/cart''])
   \<and> fst (create_pull_request folder_env (PyStr ''c-42'') 42 cart_generation [])
     = Inr (failed_result cart_generation (AttributeError ''object has no attribute sha''))
   \<and> \<not> list_ex is_create_pull
         (new_calls (create_pull_request folder_env (PyStr ''c-42'') 42 cart_generation) [])"
proof -
  let ?f = "AttributeError ''object has no attribute sha''"
  let ?hf = "[GetGitRef ''heads/feature/cart'', GetGitRef ''heads/main'',
       CreateGitRef ''refs/heads/feature/cart'' ''sha-main'',
       GetContents ''src/cart.py'' ''feature/cart'',
       CreateFile ''src/cart.py'' ''Add src/cart.py'' ''class Cart: ...'' ''feature/cart'',
       GetContents ''src/store.py'' ''feature/cart'']"
  have folder: "materialize folder_env 42 cart_generation [] = (Inl ?f, ?hf)"
    by (simp add: materialize_def eval_defs folder_env_def folder_repository_def
        dev_example_defs cart_generation_fields)
  have folder_last: "is_file_call (last ?hf)"
    by simp
  have folder_accepts: "store_accepts folder_env ?hf (PyStr ''c-42'') cart_generation ?f"
    by (simp add: store_accepts_def failed_record_def failure_update_def folder_env_def
        folder_repository_def dev_example_defs)
  from file_write_failure_is_recorded [OF folder folder_last, of "PyStr ''c-42''"] folder_accepts
  have folder_run:
    "fst (create_pull_request folder_env (PyStr ''c-42'') 42 cart_generation [])
     = Inr (failed_result cart_generation ?f)"
    "\<not> list_ex is_create_pull
         (new_calls (create_pull_request folder_env (PyStr ''c-42'') 42 cart_generation) [])"
    by blast+
  let ?E = "dev_env [] [''src/store.py'']"
  let ?h1 = "snd (materialize ?E 42 cart_generation [])"
  let ?e = "GithubException 500 ''Server Error''"
  have mat: "materialize ?E 42 cart_generation [] = (Inl ?e, ?h1)"
    by (simp add: materialize_cart_broken)
  have last_call: "is_file_call (last ?h1)"
    by (simp add: materialize_cart_broken)
  have accepts: "store_accepts ?E ?h1 (PyStr ''c-42'') cart_generation ?e"
    by (simp add: store_accepts_def failed_record_def failure_update_def dev_example_defs)
  have run: "create_pull_request ?E (PyStr ''c-42'') 42 cart_generation []
             = (Inr (failed_result cart_generation ?e),
                ?h1 @ [failed_record (PyStr ''c-42'') cart_generation,
                       failure_update (PyStr ''row-1'') ?e])"
    by (simp add: create_pull_request_cart_broken failed_result_def failed_record_def
        failure_update_def str_of_error_def str_int_500)
  from file_write_failure_is_recorded [OF mat last_call, of "PyStr ''c-42''"] accepts run
  have "fst (materialize ?E 42 cart_generation []) = Inl ?e
   \<and> CreateFile ''src/cart.py'' ''Add src/cart.py'' ''class Cart: ...'' ''feature/cart''
       \<in> set ?h1
   \<and> last ?h1
       = CreateFile ''src/store.py'' ''Add src/store.py'' ''class Store: ...'' ''feature/cart''
   \<and> store_accepts ?E ?h1 (PyStr ''c-42'') cart_generation ?e
   \<and> fst (create_pull_request ?E (PyStr ''c-42'') 42 cart_generation [])
     = Inr (failed_result cart_generation ?e)
   \<and> snd (create_pull_request ?E (PyStr ''c-42'') 42 cart_generation [])
     = ?h1 @ [failed_record (PyStr ''c-42'') cart_generation,
              failure_update (PyStr ''row-1'') ?e]
   \<and> str_of_error ?e = ''500 Server Error''
   \<and> \<not> list_ex is_create_pull
         (new_calls (create_pull_request ?E (PyStr ''c-42'') 42 cart_generation) [])"
    by (simp add: materialize_cart_broken str_of_error_def str_int_500)
  with folder folder_run show ?thesis by simp
qed

text \<open>
  Claim C9 as stated fails where the exception has no text, as an exception built
  without a message has none: \<open>src/cart.py\<close> is committed, the creation of
  \<open>src/store.py\<close> raises, the record is updated to status \<open>failed\<close> with the empty
  string as its error message, and the result carries the empty message too.
\<close>

theorem file_write_failure_empty_message_counterexample:
  "materialize silent_env 42 cart_generation [] =
   (Inl (PyException []),
    [GetGitRef ''heads/feature/cart'', GetGitRef ''heads/main'',
     CreateGitRef ''refs/heads/feature/cart'' ''sha-main'',
     GetContents ''src/cart.py'' ''feature/cart'',
     CreateFile ''src/cart.py'' ''Add src/cart.py'' ''class Cart: ...'' ''feature/cart'',
     GetContents ''src/store.py'' ''feature/cart'',
     CreateFile ''src/store.py'' ''Add src/store.py'' ''class Store: ...'' ''feature/cart''])
   \<and> fst (create_pull_request silent_env (PyStr ''c-42'') 42 cart_generation [])
     = Inr \<lparr>generation = cart_generation, pr_number = None, pr_url = None,
            result_status = ''failed'', error_message = Some []\<rparr>
   \<and> last (snd (create_pull_request silent_env (PyStr ''c-42'') 42 cart_generation []))
     = DbUpdate ''code_generations''
         [(''status'', PyStr ''failed''), (''error_message'', PyStr [])] ''id'' (PyStr ''row-1'')"
proof -
  have mat: "materialize silent_env 42 cart_generation [] =
   (Inl (PyException []),
    [GetGitRef ''heads/feature/cart'', GetGitRef ''heads/main'',
     CreateGitRef ''refs/heads/feature/cart'' ''sha-main'',
     GetContents ''src/cart.py'' ''feature/cart'',
     CreateFile ''src/cart.py'' ''Add src/cart.py'' ''class Cart: ...'' ''feature/cart'',
     GetContents ''src/store.py'' ''feature/cart'',
     CreateFile ''src/store.py'' ''Add src/store.py'' ''class Store: ...'' ''feature/cart''])"
    by (simp add: materialize_def eval_defs silent_env_def silent_repository_def
        dev_example_defs cart_generation_fields)
  have run: "create_pull_request silent_env (PyStr ''c-42'') 42 cart_generation [] =
    (Inr \<lparr>generation = cart_generation, pr_number = None, pr_url = None,
          result_status = ''failed'', error_message = Some []\<rparr>,
     [GetGitRef ''heads/feature/cart'', GetGitRef ''heads/main'',
      CreateGitRef ''refs/heads/feature/cart'' ''sha-main'',
      GetContents ''src/cart.py'' ''feature/cart'',
      CreateFile ''src/cart.py'' ''Add src/cart.py'' ''class Cart: ...'' ''feature/cart'',
      GetContents ''src/store.py'' ''feature/cart'',
      CreateFile ''src/store.py'' ''Add src/store.py'' ''class Store: ...'' ''feature/cart'',
      failed_record (PyStr ''c-42'') cart_generation,
      DbUpdate ''code_generations''
        [(''status'', PyStr ''failed''), (''error_message'', PyStr [])] ''id'' (PyStr ''row-1'')])"
    unfolding create_pull_request_failure [OF mat]
    by (simp add: silent_env_def silent_repository_def dev_example_defs failed_record_def
        failure_update_def failed_result_def str_of_error_def)
  from mat run show ?thesis by simp
qed

section \<open>The label trigger: claim C10\<close>

text \<open>
  Claim C10 at a conversation whose analysis column is still null (the row
  \<open>create_conversation\<close> inserts has none): \<open>conversation.get("analysis", {})\<close> is then
  \<open>None\<close>, not the default, and reading \<open>refined_description\<close> from it raises
  \<open>AttributeError\<close>. The handler does not return \<open>None\<close> and the gateway answers
  with status 500, not with \<open>ignored\<close>. No agent is invoked and nothing is written.
\<close>

theorem handle_label_added_null_analysis:
  "handle_label_added
      (analysis_env [conversation_row ''analyzing'' PyNone] undecided_analysis labeled_payload)
      42 ''ready-for-dev'' ''acme/shop'' []
   = (Inl (AttributeError ''object has no attribute get''),
      [DbSelect ''conversations''
         [(''issue_number'', PyInt 42), (''repo_full_name'', PyStr ''acme/shop'')]])
   \<and> github_webhook
        (analysis_env [conversation_row ''analyzing'' PyNone] undecided_analysis labeled_payload)
        (delivery ''issues'' ''d-1'' (encode ''labeled'')) []
   = (Inr (JSONResponse [(''status'', PyStr ''error''),
                         (''message'', PyStr ''object has no attribute get'')] 500),
      [GetRepo ''acme/shop'',
       DbSelect ''conversations''
         [(''issue_number'', PyInt 42), (''repo_full_name'', PyStr ''acme/shop'')]])"
  by (simp add: handle_label_added_def github_webhook_def handle_issues_event_def create_agents_def
      eval_defs example_defs verify_own_signature str_of_error_def)

text \<open>
  The part of the claim that holds: when the store has no conversation, or the analysis
  of the conversation is a JSON object without a truthy \<open>refined_description\<close> (also
  when the row has no \<open>analysis\<close> key at all), the handler returns \<open>None\<close> after the
  lookup alone.
\<close>

lemma handle_label_added_ignored:
  assumes "respond E h (DbSelect ''conversations''
             [(''issue_number'', PyInt number), (''repo_full_name'', PyStr repo)]) = Rows rows"
    and "rows = [] \<or> (\<exists>row rest d. rows = row # rest
           \<and> (map_of row ''analysis'' = None \<and> d = [] \<or> map_of row ''analysis'' = Some (PyDict d))
           \<and> (case map_of d ''refined_description'' of None \<Rightarrow> True | Some v \<Rightarrow> \<not> truthy v))"
  shows "handle_label_added E number ''ready-for-dev'' repo h
         = (Inr None, h @ [DbSelect ''conversations''
              [(''issue_number'', PyInt number), (''repo_full_name'', PyStr repo)]])"
  using assms
  by (auto simp: handle_label_added_def get_conversation_def response_data_def prog_defs
      py_get_def split: option.splits list.splits)

section \<open>The order of materialization: claim C8\<close>

text \<open>
  Claim C8, as the code has it. The calls of every run of \<open>materialize\<close>, completed or
  not, come in the order of the steps: branch, files, pull request, link. A completed
  run consists of exactly these calls: (a) the lookup of the branch, followed by its
  creation from \<open>main\<close> only when the lookup failed; (b) for each implementation file
  in turn, a \<open>file_write\<close>; (c) the same for each test file; (d) the call that opens
  the pull request, answered with the number that is returned; (e) the reading of the
  pull request, followed by an edit that appends \<open>Closes #N\<close> only when the body does
  not contain that text. A \<open>file_write\<close> is what the claim says, read the SHA and update
  when the file exists and create it when the read answers 404, or else
  \<open>create_after_update\<close>.
\<close>

theorem materialize_steps_in_order:
  assumes "materialize E n cg h = (r, h')"
  shows "(\<exists>cs. h' = h @ cs \<and> sorted (map step_rank cs))
    \<and> (\<forall>pr. r = Inr pr \<longrightarrow>
         (\<exists>b fs ts l body.
            h' = h @ b @ concat fs @ concat ts
                 @ [CreatePull (pr_title cg) (pr_description cg) (branch_name cg) ''main''] @ l
            \<and> branch_step E h (branch_name cg) b
            \<and> file_writes E (branch_name cg) (h @ b) (impl_specs cg) fs
            \<and> file_writes E (branch_name cg) (h @ b @ concat fs) (test_specs cg) ts
            \<and> respond E (h @ b @ concat fs @ concat ts)
                 (CreatePull (pr_title cg) (pr_description cg) (branch_name cg) ''main'')
               = Pull pr body
            \<and> link_step E
                 (h @ b @ concat fs @ concat ts
                  @ [CreatePull (pr_title cg) (pr_description cg) (branch_name cg) ''main''])
                 pr n l))"
proof (intro conjI allI impI)
  from materialize_ordered [of E n cg h] assms
  show "\<exists>cs. h' = h @ cs \<and> sorted (map step_rank cs)" by auto
next
  fix pr assume "r = Inr pr"
  with assms have run: "materialize E n cg h = (Inr pr, h')" by simp
  let ?pull = "CreatePull (pr_title cg) (pr_description cg) (branch_name cg) ''main''"
  from run obtain ex ha hb hc hd pull he hf and u1 u2 u3 u4 :: unit where
    1: "branch_exists E (branch_name cg) h = (Inr ex, ha)"
    and 2: "(if \<not> ex then create_branch E (branch_name cg) ''main'' else ret ()) ha = (Inr u1, hb)"
    and 3: "for_each (\<lambda>file_change.
             create_or_update_file E (file_path file_change) (content file_change)
               (''Add '' @ file_path file_change) (branch_name cg)) (files_to_create cg) hb
            = (Inr u2, hc)"
    and 4: "for_each (\<lambda>test_file.
             create_or_update_file E (test_file_path test_file) (test_content test_file)
               (''Add tests: '' @ test_file_path test_file) (branch_name cg)) (test_files cg) hc
            = (Inr u3, hd)"
    and 5: "vcs_create_pull_request E (pr_title cg) (pr_description cg) (branch_name cg) ''main'' hd
            = (Inr pull, he)"
    and 6: "link_issue_to_pr E (fst pull) n he = (Inr u4, hf)"
    and 7: "pr = fst pull" "h' = hf"
    unfolding materialize_def bind_Inr_iff ret_iff by blast
  from branch_phase [OF 1 2] obtain b where
    b: "hb = h @ b" "branch_step E h (branch_name cg) b" by blast
  from for_each_file_writes [OF 3] obtain fs where
    fs: "hc = hb @ concat fs" "file_writes E (branch_name cg) hb (impl_specs cg) fs"
    unfolding impl_specs_def by blast
  from for_each_file_writes [OF 4] obtain ts where
    ts: "hd = hc @ concat ts" "file_writes E (branch_name cg) hc (test_specs cg) ts"
    unfolding test_specs_def by blast
  note he = vcs_create_pull_request_run [OF 5] and answer = vcs_create_pull_request_ok [OF 5]
  from link_issue_to_pr_ok [OF 6] obtain l where
    l: "hf = he @ l" "link_step E he (fst pull) n l" by blast
  from b fs ts he answer l 7
  have "h' = h @ b @ concat fs @ concat ts @ [?pull] @ l
        \<and> branch_step E h (branch_name cg) b
        \<and> file_writes E (branch_name cg) (h @ b) (impl_specs cg) fs
        \<and> file_writes E (branch_name cg) (h @ b @ concat fs) (test_specs cg) ts
        \<and> respond E (h @ b @ concat fs @ concat ts) ?pull = Pull pr (snd pull)
        \<and> link_step E (h @ b @ concat fs @ concat ts @ [?pull]) pr n l"
    by simp
  then show "\<exists>b fs ts l body.
            h' = h @ b @ concat fs @ concat ts @ [?pull] @ l
            \<and> branch_step E h (branch_name cg) b
            \<and> file_writes E (branch_name cg) (h @ b) (impl_specs cg) fs
            \<and> file_writes E (branch_name cg) (h @ b @ concat fs) (test_specs cg) ts
            \<and> respond E (h @ b @ concat fs @ concat ts) ?pull = Pull pr body
            \<and> link_step E (h @ b @ concat fs @ concat ts @ [?pull]) pr n l"
    by blast
qed

text \<open>
  Witness for claim C8: the generation \<open>cart_generation\<close> for issue 42 in a repository
  that has \<open>src/cart.py\<close> and lacks the branch and the other two files.
\<close>

theorem materialize_steps_in_order_witness:
  "fst (materialize (dev_env [''src/cart.py''] []) 42 cart_generation []) = Inr 101
   \<and> sorted (map step_rank (snd (materialize (dev_env [''src/cart.py''] []) 42 cart_generation [])))
   \<and> (\<exists>b fs ts l body.
         snd (materialize (dev_env [''src/cart.py''] []) 42 cart_generation [])
         = b @ concat fs @ concat ts
           @ [CreatePull ''Add shopping cart'' ''Adds the cart'' ''feature/cart'' ''main''] @ l
         \<and> branch_step (dev_env [''src/cart.py''] []) [] ''feature/cart'' b
         \<and> file_writes (dev_env [''src/cart.py''] []) ''feature/cart'' b
              (impl_specs cart_generation) fs
         \<and> file_writes (dev_env [''src/cart.py''] []) ''feature/cart'' (b @ concat fs)
              (test_specs cart_generation) ts
         \<and> respond (dev_env [''src/cart.py''] []) (b @ concat fs @ concat ts)
              (CreatePull ''Add shopping cart'' ''Adds the cart'' ''feature/cart'' ''main'')
            = Pull 101 body
         \<and> link_step (dev_env [''src/cart.py''] [])
              (b @ concat fs @ concat ts
               @ [CreatePull ''Add shopping cart'' ''Adds the cart'' ''feature/cart'' ''main''])
              101 42 l)"
proof -
  let ?E = "dev_env [''src/cart.py''] []"
  have run: "materialize ?E 42 cart_generation []
             = (Inr 101, snd (materialize ?E 42 cart_generation []))"
    by (simp add: materialize_cart)
  have result: "fst (materialize ?E 42 cart_generation []) = Inr 101"
    by (simp add: materialize_cart)
  from materialize_steps_in_order [OF run] result
  show ?thesis
    by (simp add: cart_generation_fields)
qed

text \<open>
  Claim C8 as stated fails where a file exists and its update is answered with 404:
  \<open>src/cart.py\<close> is read, updated with the SHA that was read, and then created as well,
  which is not a \<open>file_step\<close>, and the run goes on to open the pull request.
\<close>

theorem materialize_creates_existing_file_counterexample:
  "respond vanishing_env
     [GetGitRef ''heads/feature/cart'', GetGitRef ''heads/main'',
      CreateGitRef ''refs/heads/feature/cart'' ''sha-main'']
     (GetContents ''src/cart.py'' ''feature/cart'') = ContentFile ''sha-of-src/cart.py''
   \<and> materialize vanishing_env 42 cart_generation [] =
     (Inr 101,
      [GetGitRef ''heads/feature/cart'', GetGitRef ''heads/main'',
       CreateGitRef ''refs/heads/feature/cart'' ''sha-main'',
       GetContents ''src/cart.py'' ''feature/cart'',
       UpdateFile ''src/cart.py'' ''Add src/cart.py'' ''class Cart: ...''
         ''sha-of-src/cart.py'' ''feature/cart'',
       CreateFile ''src/cart.py'' ''Add src/cart.py'' ''class Cart: ...'' ''feature/cart'',
       GetContents ''src/store.py'' ''feature/cart'',
       CreateFile ''src/store.py'' ''Add src/store.py'' ''class Store: ...'' ''feature/cart'',
       GetContents ''tests/test_cart.py'' ''feature/cart'',
       CreateFile ''tests/test_cart.py'' ''Add tests: tests/test_cart.py''
         ''def test_add(): ...'' ''feature/cart'',
       CreatePull ''Add shopping cart'' ''Adds the cart'' ''feature/cart'' ''main'',
       GetPull 101, EditPull 101 (''Adds the cart'' @ nl @ nl @ ''Closes #42'')])
   \<and> \<not> file_step vanishing_env
         [GetGitRef ''heads/feature/cart'', GetGitRef ''heads/main'',
          CreateGitRef ''refs/heads/feature/cart'' ''sha-main'']
         ''feature/cart'' (''src/cart.py'', ''class Cart: ...'', ''Add src/cart.py'')
         [GetContents ''src/cart.py'' ''feature/cart'',
          UpdateFile ''src/cart.py'' ''Add src/cart.py'' ''class Cart: ...''
            ''sha-of-src/cart.py'' ''feature/cart'',
          CreateFile ''src/cart.py'' ''Add src/cart.py'' ''class Cart: ...'' ''feature/cart'']"
  apply (intro conjI)
  subgoal
    by (simp add: vanishing_env_def vanishing_repository_def dev_example_defs)
  subgoal
    by (simp add: materialize_def eval_defs vanishing_env_def vanishing_repository_def
        dev_example_defs cart_generation_fields str_int_42 nl_def)
  subgoal
    by (simp add: file_step_def vanishing_env_def vanishing_repository_def dev_example_defs)
  done

end
